theory Spec2Isabelle
  imports Complex_Main "HOL-Library.Multiset"
begin

section \<open>HybridModel: data model\<close>

text \<open>
  A shallow embedding of \<^verbatim>\<open>src/model/HybridModel.cpp\<close>.

  A \<^verbatim>\<open>double\<close> that is stored, copied or handed to a function of another file is
  modelled as a real number. \<open>MSE\<close> computes with doubles itself; there a double is a
  \<open>double_value\<close>, and rounding, overflow, the infinities and NaN are part of the model.
  Vector sizes and loop counters are natural numbers or integers; they are assumed to stay
  below \<open>2^31\<close>, the range of the source's \<^verbatim>\<open>int\<close> counters.

  \<^verbatim>\<open>std::vector::operator[]\<close> outside the vector is undefined behaviour in the source;
  the model makes it the error \<open>out_of_bounds\<close>. \<^verbatim>\<open>std::get\<close> on a variant that holds the
  other alternative throws \<^verbatim>\<open>std::bad_variant_access\<close>.
\<close>

type_synonym Matrix = "real list list"
type_synonym Tensor3D = "real list list list"
type_synonym matrixDict = "string \<rightharpoonup> Matrix"
type_synonym minibatch = "Tensor3D \<times> Matrix"

datatype variantTensor = VMatrix Matrix | VTensor3D Tensor3D

type_synonym gradientDict = "string \<rightharpoonup> variantTensor"

type_synonym cacheTuple =
  "Matrix \<times> Matrix \<times> Matrix \<times> Matrix \<times> Matrix \<times> Matrix \<times> Matrix \<times> Matrix \<times> Matrix \<times> matrixDict"
type_synonym LSTMCache = "Tensor3D \<times> Tensor3D \<times> Tensor3D \<times> (cacheTuple list \<times> Tensor3D)"

datatype cache_entry = CacheLSTM LSTMCache | CacheMLP matrixDict
datatype grad_entry = GradDict gradientDict | GradMatrix matrixDict

datatype error = invalid_argument string | bad_variant_access | out_of_bounds

subsection \<open>Double-precision arithmetic\<close>







subsection \<open>Sequencing of fallible steps\<close>

fun then_do :: "error + 'a \<Rightarrow> ('a \<Rightarrow> error + 'b) \<Rightarrow> error + 'b" where
  "then_do (Inl e) f = Inl e"
| "then_do (Inr v) f = f v"

text \<open>A loop over a list of indices whose body may fail; the first failure ends it.\<close>

fun for_each :: "('a \<Rightarrow> 'b \<Rightarrow> error + 'b) \<Rightarrow> 'a list \<Rightarrow> 'b \<Rightarrow> error + 'b" where
  "for_each body [] acc = Inr acc"
| "for_each body (x # xs) acc =
     (case body x acc of Inl e \<Rightarrow> Inl e | Inr acc' \<Rightarrow> for_each body xs acc')"

fun collect :: "('a \<Rightarrow> error + 'b) \<Rightarrow> 'a list \<Rightarrow> error + 'b list" where
  "collect f [] = Inr []"
| "collect f (x # xs) =
     (case f x of Inl e \<Rightarrow> Inl e
      | Inr y \<Rightarrow> (case collect f xs of Inl e \<Rightarrow> Inl e | Inr ys \<Rightarrow> Inr (y # ys)))"

subsection \<open>Vectors, variants, dictionaries\<close>

definition vec_at :: "'a list \<Rightarrow> int \<Rightarrow> error + 'a" where
  "vec_at xs i = (if 0 \<le> i \<and> i < int (length xs) then Inr (xs ! nat i) else Inl out_of_bounds)"

definition vec_set :: "'a list \<Rightarrow> int \<Rightarrow> 'a \<Rightarrow> error + 'a list" where
  "vec_set xs i v =
     (if 0 \<le> i \<and> i < int (length xs) then Inr (xs[nat i := v]) else Inl out_of_bounds)"

definition get_Tensor3D :: "variantTensor \<Rightarrow> error + Tensor3D" where
  "get_Tensor3D x = (case x of VTensor3D a \<Rightarrow> Inr a | VMatrix _ \<Rightarrow> Inl bad_variant_access)"

definition get_Matrix :: "variantTensor \<Rightarrow> error + Matrix" where
  "get_Matrix x = (case x of VMatrix a \<Rightarrow> Inr a | VTensor3D _ \<Rightarrow> Inl bad_variant_access)"

definition get_matrixDict :: "cache_entry \<Rightarrow> error + matrixDict" where
  "get_matrixDict c = (case c of CacheMLP d \<Rightarrow> Inr d | CacheLSTM _ \<Rightarrow> Inl bad_variant_access)"

definition get_gradientDict :: "grad_entry \<Rightarrow> error + gradientDict" where
  "get_gradientDict g = (case g of GradDict d \<Rightarrow> Inr d | GradMatrix _ \<Rightarrow> Inl bad_variant_access)"

text \<open>\<^verbatim>\<open>std::map::operator[]\<close>: a missing key is inserted with a default-constructed value.\<close>

definition dict_touch :: "('k \<rightharpoonup> 'v) \<Rightarrow> 'k \<Rightarrow> 'v \<Rightarrow> ('k \<rightharpoonup> 'v)" where
  "dict_touch d k dflt = (case d k of None \<Rightarrow> d(k \<mapsto> dflt) | Some _ \<Rightarrow> d)"

definition dict_get :: "('k \<rightharpoonup> 'v) \<Rightarrow> 'k \<Rightarrow> 'v \<Rightarrow> 'v" where
  "dict_get d k dflt = (case d k of None \<Rightarrow> dflt | Some v \<Rightarrow> v)"

text \<open>\<^verbatim>\<open>std::to_string\<close> on an \<^verbatim>\<open>int\<close>: the decimal digits, with a sign when negative.\<close>

definition digit_char :: "nat \<Rightarrow> char" where
  "digit_char d = ''0123456789'' ! d"

fun digits :: "nat \<Rightarrow> string" where
  "digits n = (if n < 10 then [digit_char n] else digits (n div 10) @ [digit_char (n mod 10)])"

declare digits.simps [simp del]

definition to_string :: "int \<Rightarrow> string" where
  "to_string i = (if i < 0 then CHR ''-'' # digits (nat (- i)) else digits (nat i))"

section \<open>Minibatch generation\<close>

text \<open>
  \<^verbatim>\<open>std::mt19937\<close> and \<^verbatim>\<open>std::shuffle\<close> are the standard library's; the shuffle is a
  parameter \<open>shuffle seed xs\<close>. The batch loop adds \<^verbatim>\<open>batch_size\<close> to the \<^verbatim>\<open>size_t\<close>
  counter \<open>k\<close>, so the sum is taken modulo \<open>2^64\<close>; with \<^verbatim>\<open>batch_size = 0\<close> the loop never
  ends, which is the value \<open>None\<close>.
\<close>

definition size_t_add :: "nat \<Rightarrow> int \<Rightarrow> nat" where
  "size_t_add k b = nat ((int k + b) mod 2 ^ 64)"

definition slice_batch :: "'a list \<Rightarrow> nat \<Rightarrow> nat \<Rightarrow> 'a list" where
  "slice_batch shuffled k end = map (\<lambda>i. shuffled ! i) [k..<end]"

partial_function (option) minibatch_loop ::
  "Tensor3D \<Rightarrow> Matrix \<Rightarrow> int \<Rightarrow> nat \<Rightarrow> minibatch list \<Rightarrow> minibatch list option" where
  "minibatch_loop shuffled_X shuffled_Y batch_size k minibatches =
     (let m = length shuffled_X in
      if k < m then
        (let end = min (size_t_add k batch_size) m in
         minibatch_loop shuffled_X shuffled_Y batch_size (size_t_add k batch_size)
           (minibatches @ [(slice_batch shuffled_X k end, slice_batch shuffled_Y k end)]))
      else Some minibatches)"

definition shuffle_dataset ::
  "Tensor3D \<Rightarrow> Matrix \<Rightarrow> nat list \<Rightarrow> error + (real list list \<times> real list) list" where
  "shuffle_dataset X Y permutation =
     collect (\<lambda>i. then_do (vec_at permutation (int i)) (\<lambda>p.
                  then_do (vec_at X (int p)) (\<lambda>x.
                  then_do (vec_at Y (int p)) (\<lambda>y. Inr (x, y)))))
       [0..<length X]"

definition generate_minibatches ::
  "(int \<Rightarrow> nat list \<Rightarrow> nat list) \<Rightarrow> Tensor3D \<Rightarrow> Matrix \<Rightarrow> int \<Rightarrow> int
     \<Rightarrow> (error + minibatch list) option" where
  "generate_minibatches shuffle X Y batch_size seed =
     (let m = length X;
          permutation = shuffle seed [0..<m]
      in case then_do (vec_at X 0) (\<lambda>X0. then_do (vec_at X0 0) (\<lambda>_.
                shuffle_dataset X Y permutation)) of
           Inl e \<Rightarrow> Some (Inl e)
         | Inr shuffled \<Rightarrow>
             map_option Inr
               (minibatch_loop (map fst shuffled) (map snd shuffled) batch_size 0 []))"

section \<open>Mean squared error\<close>


section \<open>Shape reconciliation\<close>

text \<open>The \<^verbatim>\<open>Tensor3D\<close> overload: the last timestep of every example.\<close>

definition reshape_last_timestep_T :: "Tensor3D \<Rightarrow> error + Matrix" where
  "reshape_last_timestep_T hidden_state =
     then_do (vec_at hidden_state 0) (\<lambda>h0.
     then_do (vec_at h0 0) (\<lambda>_.
       collect (\<lambda>i. if hidden_state ! i = []
                     then Inl (invalid_argument ''Hidden state is empty'')
                     else Inr (last (hidden_state ! i)))
         [0..<length hidden_state]))"

text \<open>
  The \<^verbatim>\<open>Matrix\<close> overload: every row repeated over the number of timesteps of the
  first example of the stored \<^verbatim>\<open>x_train\<close>, passed here as \<open>xtr\<close>.
\<close>

definition reshape_last_timestep_M :: "variantTensor \<Rightarrow> Matrix \<Rightarrow> error + Tensor3D" where
  "reshape_last_timestep_M xtr hidden_state =
     then_do (vec_at hidden_state 0) (\<lambda>_.
     then_do (get_Tensor3D xtr) (\<lambda>x3.
     then_do (vec_at x3 0) (\<lambda>x0.
       (let TIMESTEPS = length x0 in
        Inr (map (\<lambda>i. map (\<lambda>t. hidden_state ! i) [0..<TIMESTEPS])
               [0..<length hidden_state])))))"

section \<open>The model state and the external collaborators\<close>

text \<open>
  The variables of the anonymous namespace, lines 40 to 69. They are process-wide, so every
  operation takes the state and returns the new one.
\<close>

record model_state =
  layer_types :: "string list"
  layer_dims :: "int list"
  layer_params :: "matrixDict list"
  learning_rate :: real
  cache :: "cache_entry list"
  finalPrediction :: Matrix
  accumulated_loss :: real
  x_train :: variantTensor
  y_train :: Matrix
  BATCH_SIZE :: int
  n_hidden :: int
  grads :: "grad_entry list"
  Adam_params :: "matrixDict list list"
  t :: nat

definition beta1 :: real where "beta1 = 9 / 10"
definition beta2 :: real where "beta2 = 999 / 1000"
definition epsilon :: real where "epsilon = 1 / 10 ^ 8"

text \<open>The namespace as the program starts: the initialisers of lines 42 to 68.\<close>

definition initial_state :: model_state where
  "initial_state =
     \<lparr>layer_types = [], layer_dims = [], layer_params = [], learning_rate = 0,
      cache = [], finalPrediction = [], accumulated_loss = 0,
      x_train = VMatrix [], y_train = [[]], BATCH_SIZE = 0, n_hidden = 0,
      grads = [], Adam_params = [], t = 0\<rparr>"

datatype activation = activations_relu | activations_linear

text \<open>
  The headers \<^verbatim>\<open>LSTMNetwork.h\<close>, \<^verbatim>\<open>MLP.h\<close> and \<^verbatim>\<open>linalg.h\<close> are not part of the
  sources at hand. The functions of theirs that \<^verbatim>\<open>HybridModel.cpp\<close> calls are parameters
  of the model, gathered in one record; each may fail. The overloads of \<^verbatim>\<open>linalg::add\<close>
  and \<^verbatim>\<open>linalg::division\<close> with a scalar second argument have a field of their own.
\<close>

record extern =
  lstm_forward :: "Tensor3D \<Rightarrow> Matrix \<Rightarrow> matrixDict \<Rightarrow> int \<Rightarrow> error + LSTMCache"
  Dense :: "Matrix \<Rightarrow> matrixDict \<Rightarrow> activation \<Rightarrow> int \<Rightarrow> bool \<Rightarrow> error + Matrix \<times> matrixDict"
  lstm_backprop :: "Tensor3D \<Rightarrow> cacheTuple list \<times> Tensor3D \<Rightarrow> int \<Rightarrow> error + gradientDict"
  mlp_backward ::
    "Matrix \<Rightarrow> Matrix \<Rightarrow> Matrix \<Rightarrow> matrixDict \<Rightarrow> int \<Rightarrow> activation \<Rightarrow> error + matrixDict"
  init_params :: "int \<Rightarrow> int \<Rightarrow> int \<Rightarrow> int \<Rightarrow> error + matrixDict"
  init_mlp_params :: "int list \<Rightarrow> int \<Rightarrow> error + matrixDict"
  generateZeros :: "int \<Rightarrow> int \<Rightarrow> error + Matrix"
  linalg_add :: "Matrix \<Rightarrow> Matrix \<Rightarrow> error + Matrix"
  linalg_add_scalar :: "Matrix \<Rightarrow> real \<Rightarrow> error + Matrix"
  scalarMultiply :: "real \<Rightarrow> Matrix \<Rightarrow> error + Matrix"
  linalg_division :: "Matrix \<Rightarrow> Matrix \<Rightarrow> error + Matrix"
  linalg_division_scalar :: "Matrix \<Rightarrow> real \<Rightarrow> error + Matrix"
  linalg_pow :: "Matrix \<Rightarrow> real \<Rightarrow> error + Matrix"
  linalg_sqrt :: "Matrix \<Rightarrow> error + Matrix"
  linalg_subtract :: "Matrix \<Rightarrow> Matrix \<Rightarrow> error + Matrix"

subsection \<open>Setters and network initialisation\<close>

definition init_data :: "variantTensor \<Rightarrow> Matrix \<Rightarrow> int \<Rightarrow> model_state \<Rightarrow> model_state" where
  "init_data X Y batch_size s = s\<lparr>x_train := X, y_train := Y, BATCH_SIZE := batch_size\<rparr>"

definition init_layers :: "string list \<Rightarrow> int list \<Rightarrow> model_state \<Rightarrow> model_state" where
  "init_layers layer_type layer_dim s = s\<lparr>layer_types := layer_type, layer_dims := layer_dim\<rparr>"

definition init_hidden_units :: "int \<Rightarrow> model_state \<Rightarrow> model_state" where
  "init_hidden_units numUnits s = s\<lparr>n_hidden := numUnits\<rparr>"

definition init_learning_rate :: "real \<Rightarrow> model_state \<Rightarrow> model_state" where
  "init_learning_rate lr s = s\<lparr>learning_rate := lr\<rparr>"

definition initialize_layer :: "extern \<Rightarrow> int \<Rightarrow> model_state \<Rightarrow> error + model_state" where
  "initialize_layer ext i s =
     then_do (vec_at (layer_types s) (i - 1)) (\<lambda>lt.
     then_do
       (if lt = ''LSTM'' then
          (case x_train s of
             VTensor3D x \<Rightarrow>
               then_do (if i = 1
                        then then_do (vec_at x 0) (\<lambda>x0.
                             then_do (vec_at x0 0) (\<lambda>x00. Inr (int (length x00))))
                        else vec_at (layer_dims s) (i - 2)) (\<lambda>n_input.
               then_do (vec_at (layer_dims s) (i - 1)) (\<lambda>d.
                 init_params ext n_input (n_hidden s) d i))
           | VMatrix _ \<Rightarrow> Inr Map.empty)
        else if lt = ''Relu'' \<or> lt = ''Linear'' then init_mlp_params ext (layer_dims s) (i - 1)
        else Inr Map.empty) (\<lambda>current_params.
     Inr (s\<lparr>layer_params := layer_params s @ [current_params]\<rparr>)))"

definition initialize_network :: "extern \<Rightarrow> model_state \<Rightarrow> error + model_state" where
  "initialize_network ext s =
     for_each (initialize_layer ext) (map int [1..<Suc (length (layer_types s))]) s"

text \<open>
  The pattern of lines 241 to 245, used for every cache and gradient entry: replace the
  entry at the index when the vector already has as many entries as there are layers,
  append otherwise.
\<close>

definition store_entry :: "'a list \<Rightarrow> nat \<Rightarrow> int \<Rightarrow> 'a \<Rightarrow> error + 'a list" where
  "store_entry entries L i e =
     (if length entries = L then vec_set entries i e else Inr (entries @ [e]))"

section \<open>Forward propagation\<close>

record forward_locals =
  a_out :: Matrix
  first_mlp_encountered :: bool
  new_x_state :: Tensor3D
  new_hidden_state :: Tensor3D

text \<open>
  One iteration of the loop of lines 232 to 312. In the \<^verbatim>\<open>Relu\<close> branch the source reads
  \<^verbatim>\<open>layer_types[i-2]\<close> before it tests \<^verbatim>\<open>i != 1\<close>.
\<close>

definition forward_layer ::
  "extern \<Rightarrow> variantTensor \<Rightarrow> Matrix \<Rightarrow> int \<Rightarrow> model_state \<times> forward_locals
     \<Rightarrow> error + model_state \<times> forward_locals" where
  "forward_layer ext x a_initial i = (\<lambda>(s, loc).
     let L = length (layer_types s) in
     then_do (vec_at (layer_types s) (i - 1)) (\<lambda>lt.
     if lt = ''LSTM'' then
       then_do
         (if i = 1 then
            then_do (get_Tensor3D x) (\<lambda>x3.
            then_do (vec_at (layer_params s) (i - 1)) (\<lambda>params.
              lstm_forward ext x3 a_initial params i))
          else
            then_do (reshape_last_timestep_T (new_hidden_state loc)) (\<lambda>a0.
            then_do (vec_at (layer_params s) (i - 1)) (\<lambda>params.
              lstm_forward ext (new_x_state loc) a0 params i))) (\<lambda>current_lstm_tuple.
       then_do (store_entry (cache s) L i (CacheLSTM current_lstm_tuple)) (\<lambda>c.
         Inr (s\<lparr>cache := c\<rparr>,
              loc\<lparr>new_x_state := snd (snd (snd (snd current_lstm_tuple))),
                  new_hidden_state := fst current_lstm_tuple\<rparr>)))
     else if lt = ''Relu'' then
       then_do (vec_at (layer_types s) (i - 2)) (\<lambda>prev.
       then_do
         (if prev = ''LSTM'' \<and> i \<noteq> 1 then
            then_do (reshape_last_timestep_T (new_hidden_state loc)) (\<lambda>a.
              Inr (loc\<lparr>a_out := a, first_mlp_encountered := True\<rparr>))
          else Inr (loc\<lparr>first_mlp_encountered := False\<rparr>)) (\<lambda>loc1.
       then_do (vec_at (layer_params s) (i - 1)) (\<lambda>params.
       then_do
         (if i = 1 then
            then_do (get_Matrix x) (\<lambda>xm.
              Dense ext xm params activations_relu i (first_mlp_encountered loc1))
          else Dense ext (a_out loc1) params activations_relu i (first_mlp_encountered loc1))
         (\<lambda>current_dense_tuple.
       then_do (store_entry (cache s) L i (CacheMLP (snd current_dense_tuple))) (\<lambda>c.
         Inr (s\<lparr>cache := c\<rparr>, loc1\<lparr>a_out := fst current_dense_tuple\<rparr>))))))
     else if lt = ''Linear'' then
       then_do
         (if lt = ''LSTM'' \<and> i \<noteq> 1 then
            then_do (reshape_last_timestep_T (new_hidden_state loc)) (\<lambda>a.
              Inr (loc\<lparr>a_out := a, first_mlp_encountered := True\<rparr>))
          else Inr (loc\<lparr>first_mlp_encountered := False\<rparr>)) (\<lambda>loc1.
       then_do (vec_at (layer_params s) (i - 1)) (\<lambda>params.
       then_do (Dense ext (a_out loc1) params activations_linear i (first_mlp_encountered loc1))
         (\<lambda>current_dense_tuple.
       then_do (store_entry (cache s) L i (CacheMLP (snd current_dense_tuple))) (\<lambda>c.
         Inr (s\<lparr>cache := c\<rparr>, loc1\<lparr>a_out := fst current_dense_tuple\<rparr>)))))
     else Inr (s, loc)))"

text \<open>
  \<^verbatim>\<open>layer_params[0]["Wy1"]\<close> inserts an empty matrix when the key is missing, and
  \<^verbatim>\<open>Wy[0]\<close> is then out of bounds; where the function goes on, nothing was inserted.
\<close>

definition forward_prop :: "extern \<Rightarrow> model_state \<Rightarrow> variantTensor \<Rightarrow> error + model_state" where
  "forward_prop ext s x =
     then_do (vec_at (layer_params s) 0) (\<lambda>params0.
     then_do (vec_at (dict_get params0 ''Wy1'' []) 0) (\<lambda>Wy0.
     let n_a = int (length Wy0) in
     then_do (get_Tensor3D x) (\<lambda>x3.
     then_do (generateZeros ext (int (length x3)) n_a) (\<lambda>a_initial.
     then_do (for_each (forward_layer ext x a_initial)
                (map int [1..<Suc (length (layer_types s))])
                (s, \<lparr>a_out = [], first_mlp_encountered = False,
                     new_x_state = [], new_hidden_state = []\<rparr>)) (\<lambda>r.
       Inr ((fst r)\<lparr>finalPrediction := a_out (snd r)\<rparr>))))))"

section \<open>Backward propagation\<close>

text \<open>
  Lines 349 to 361: the seed gradient. \<open>m\<close> is the number of examples of the stored
  \<^verbatim>\<open>x_train\<close>, and the target is the stored \<^verbatim>\<open>y_train\<close>.
\<close>

definition seed_gradient :: "extern \<Rightarrow> model_state \<Rightarrow> nat \<Rightarrow> error + Matrix" where
  "seed_gradient ext s m =
     (let L = int (length (layer_types s)) in
      then_do (vec_at (cache s) (L - 1)) (\<lambda>ce.
      then_do (get_matrixDict ce) (\<lambda>layer_cache.
      let dA_matrix = dict_get layer_cache (''A'' @ to_string (L - 1)) [] in
      then_do (linalg_subtract ext dA_matrix (y_train s)) (\<lambda>d.
        linalg_division_scalar ext d (real m)))))"

text \<open>
  One iteration of the loop of lines 365 to 422. The two reshape calls inside the loop are
  arguments \<open>to_tensor\<close> and \<open>to_matrix\<close>; \<open>back_prop\<close> passes the two overloads of
  \<^verbatim>\<open>reshape_last_timestep\<close> for them.
\<close>

definition back_prop_layer ::
  "extern \<Rightarrow> (Matrix \<Rightarrow> error + Tensor3D) \<Rightarrow> (Tensor3D \<Rightarrow> error + Matrix) \<Rightarrow> Matrix \<Rightarrow> int
     \<Rightarrow> model_state \<times> Matrix \<times> Tensor3D \<Rightarrow> error + model_state \<times> Matrix \<times> Tensor3D" where
  "back_prop_layer ext to_tensor to_matrix a_in_matrix layer = (\<lambda>(s, dA_matrix, dA_tensor).
     let L = length (layer_types s) in
     then_do (vec_at (layer_types s) (layer - 1)) (\<lambda>lt.
     if lt = ''LSTM'' then
       (if layer = int L then Inr (s, dA_matrix, dA_tensor)
        else
          then_do (if lt = ''Relu'' \<or> lt = ''Linear'' then to_tensor dA_matrix
                   else Inr dA_tensor) (\<lambda>dA_tensor1.
          then_do (vec_at (cache s) layer) (\<lambda>ce.
          case ce of
            CacheLSTM lstm_cache \<Rightarrow>
              then_do (lstm_backprop ext dA_tensor1
                         (fst (snd (snd (snd lstm_cache))), snd (snd (snd (snd lstm_cache))))
                         layer) (\<lambda>current_lstm_grads.
              then_do (get_Tensor3D
                         (dict_get current_lstm_grads (''da0'' @ to_string layer) (VMatrix [])))
                (\<lambda>dA_tensor2.
              then_do (store_entry (grads s) L layer (GradDict current_lstm_grads)) (\<lambda>g.
                Inr (s\<lparr>grads := g\<rparr>, dA_matrix, dA_tensor2))))
          | CacheMLP _ \<Rightarrow> Inr (s, dA_matrix, dA_tensor1))))
     else if lt = ''Relu'' \<or> lt = ''Linear'' then
       (if layer = int L then Inr (s, dA_matrix, dA_tensor)
        else
          then_do (if lt = ''LSTM'' then to_matrix dA_tensor else Inr dA_matrix) (\<lambda>dA_matrix1.
          then_do (vec_at (cache s) (layer - 1)) (\<lambda>ce.
          then_do (get_matrixDict ce) (\<lambda>layer_cache.
          then_do (mlp_backward ext a_in_matrix dA_matrix1 (y_train s) layer_cache layer
                     (if lt = ''Relu'' then activations_relu else activations_linear))
            (\<lambda>current_mlp_grads.
          then_do (store_entry (grads s) L layer (GradMatrix current_mlp_grads)) (\<lambda>g.
            Inr (s\<lparr>grads := g\<rparr>, dA_matrix1, dA_tensor)))))))
     else Inr (s, dA_matrix, dA_tensor)))"

definition back_prop_loop ::
  "extern \<Rightarrow> (Matrix \<Rightarrow> error + Tensor3D) \<Rightarrow> (Tensor3D \<Rightarrow> error + Matrix) \<Rightarrow> Matrix
     \<Rightarrow> model_state \<times> Matrix \<times> Tensor3D \<Rightarrow> error + model_state \<times> Matrix \<times> Tensor3D" where
  "back_prop_loop ext to_tensor to_matrix a_in_matrix start =
     for_each (back_prop_layer ext to_tensor to_matrix a_in_matrix)
       (rev (map int [1..<Suc (length (layer_types (fst start)))])) start"

definition back_prop :: "extern \<Rightarrow> model_state \<Rightarrow> error + model_state" where
  "back_prop ext s =
     then_do (get_Tensor3D (x_train s)) (\<lambda>x3.
     let m = length x3 in
     then_do (reshape_last_timestep_T x3) (\<lambda>a_in_matrix.
     then_do (seed_gradient ext s m) (\<lambda>dA_matrix.
     then_do (back_prop_loop ext (reshape_last_timestep_M (x_train s)) reshape_last_timestep_T
                a_in_matrix (s, dA_matrix, [])) (\<lambda>r.
       Inr (fst r)))))"

section \<open>The Adam optimizer\<close>

text \<open>
  \<^verbatim>\<open>generateZeros(P.size(), P[0].size())\<close> for the stored parameter \<open>P\<close> under a key, as
  written sixteen times over in lines 435 to 468. A missing key is inserted with an empty
  matrix, whose first row is then out of bounds.
\<close>

definition zeros_like :: "extern \<Rightarrow> matrixDict \<Rightarrow> string \<Rightarrow> error + Matrix" where
  "zeros_like ext params key =
     (let P = dict_get params key [] in
      then_do (vec_at P 0) (\<lambda>row0. generateZeros ext (int (length P)) (int (length row0))))"

text \<open>
  The four assignments for one weight and bias pair: \<open>gate\<close> is one of \<open>f\<close>, \<open>i\<close>, \<open>c\<close>,
  \<open>o\<close>, \<open>y\<close> for a recurrent layer and empty for a feed-forward layer.
\<close>

definition init_moments ::
  "extern \<Rightarrow> matrixDict \<Rightarrow> int \<Rightarrow> string \<Rightarrow> matrixDict \<times> matrixDict
     \<Rightarrow> error + matrixDict \<times> matrixDict" where
  "init_moments ext params i gate = (\<lambda>(v, s).
     let W = ''W'' @ gate @ to_string i; b = ''b'' @ gate @ to_string i in
     then_do (zeros_like ext params W) (\<lambda>vW.
     then_do (zeros_like ext params b) (\<lambda>vb.
     then_do (zeros_like ext params W) (\<lambda>sW.
     then_do (zeros_like ext params b) (\<lambda>sb.
       Inr (v(''d'' @ W \<mapsto> vW, ''d'' @ b \<mapsto> vb), s(''d'' @ W \<mapsto> sW, ''d'' @ b \<mapsto> sb)))))))"

definition init_Adam_layer :: "extern \<Rightarrow> int \<Rightarrow> model_state \<Rightarrow> error + model_state" where
  "init_Adam_layer ext i s =
     then_do (vec_at (layer_types s) (i - 1)) (\<lambda>lt.
     then_do
       (if lt = ''LSTM'' then
          then_do (vec_at (layer_params s) (i - 1)) (\<lambda>params.
            for_each (init_moments ext params i) [''f'', ''i'', ''c'', ''o'', ''y'']
              (Map.empty, Map.empty))
        else if lt = ''Relu'' \<or> lt = ''Linear'' then
          then_do (vec_at (layer_params s) (i - 1)) (\<lambda>params.
            init_moments ext params i [] (Map.empty, Map.empty))
        else Inr (Map.empty, Map.empty)) (\<lambda>vs.
     then_do (vec_set (Adam_params s) (i - 1) [fst vs, snd vs]) (\<lambda>a.
       Inr (s\<lparr>Adam_params := a\<rparr>))))"

text \<open>\<^verbatim>\<open>std::vector::resize\<close>: cut to \<open>n\<close> entries, or filled up with empty ones.\<close>

definition resize :: "'a list list \<Rightarrow> nat \<Rightarrow> 'a list list" where
  "resize xs n = take n xs @ replicate (n - length xs) []"

definition init_Adam :: "extern \<Rightarrow> model_state \<Rightarrow> error + model_state" where
  "init_Adam ext s =
     for_each (init_Adam_layer ext) (map int [1..<Suc (length (layer_types s))])
       (s\<lparr>Adam_params := resize (Adam_params s) (length (layer_types s))\<rparr>)"

text \<open>
  The update of lines 485 to 542 and 547 to 564 is the same five passes over a list of
  parameter names, ten for a recurrent layer and two for a feed-forward layer; every key
  carries the suffix \<^verbatim>\<open>std::to_string(l+1)\<close>. \<open>grad_map\<close> is a reference into the stored
  gradients, so a key it is asked for and does not hold is inserted there, as an empty matrix.
\<close>

definition lstm_names :: "string list" where
  "lstm_names = [''Wf'', ''bf'', ''Wi'', ''bi'', ''Wc'', ''bc'', ''Wo'', ''bo'', ''Wy'', ''by'']"

definition mlp_names :: "string list" where
  "mlp_names = [''W'', ''b'']"

definition momentum_step ::
  "extern \<Rightarrow> string \<Rightarrow> matrixDict \<times> gradientDict \<Rightarrow> error + matrixDict \<times> gradientDict" where
  "momentum_step ext key = (\<lambda>(v, grad_map).
     then_do (scalarMultiply ext beta1 (dict_get v key [])) (\<lambda>a.
     then_do (get_Matrix (dict_get grad_map key (VMatrix []))) (\<lambda>g.
     then_do (scalarMultiply ext (1 - beta1) g) (\<lambda>b.
     then_do (linalg_add ext a b) (\<lambda>r.
       Inr (v(key \<mapsto> r), dict_touch grad_map key (VMatrix [])))))))"

definition rms_step ::
  "extern \<Rightarrow> string \<Rightarrow> matrixDict \<times> gradientDict \<Rightarrow> error + matrixDict \<times> gradientDict" where
  "rms_step ext key = (\<lambda>(s, grad_map).
     then_do (scalarMultiply ext beta2 (dict_get s key [])) (\<lambda>a.
     then_do (get_Matrix (dict_get grad_map key (VMatrix []))) (\<lambda>g.
     then_do (linalg_pow ext g 2) (\<lambda>g2.
     then_do (scalarMultiply ext (1 - beta2) g2) (\<lambda>b.
     then_do (linalg_add ext a b) (\<lambda>r.
       Inr (s(key \<mapsto> r), dict_touch grad_map key (VMatrix []))))))))"

text \<open>The bias correction: the moment divided by \<open>1 - beta ^ t\<close>, with the stored \<open>t\<close>.\<close>

definition bias_correction :: "real \<Rightarrow> nat \<Rightarrow> real" where
  "bias_correction beta step = 1 - beta ^ step"

definition corrected_step ::
  "extern \<Rightarrow> real \<Rightarrow> nat \<Rightarrow> matrixDict \<Rightarrow> string \<Rightarrow> matrixDict \<Rightarrow> error + matrixDict" where
  "corrected_step ext beta step moment key corrected =
     then_do (linalg_division_scalar ext (dict_get moment key []) (bias_correction beta step))
       (\<lambda>r. Inr (corrected(key \<mapsto> r)))"

definition update_step ::
  "extern \<Rightarrow> real \<Rightarrow> matrixDict \<Rightarrow> matrixDict \<Rightarrow> string \<Rightarrow> string \<Rightarrow> matrixDict
     \<Rightarrow> error + matrixDict" where
  "update_step ext lr v_corrected s_corrected suffix name params =
     (let key = name @ suffix; dkey = ''d'' @ name @ suffix in
      then_do (scalarMultiply ext lr (dict_get v_corrected dkey [])) (\<lambda>num.
      then_do (linalg_sqrt ext (dict_get s_corrected dkey [])) (\<lambda>root.
      then_do (linalg_add_scalar ext root epsilon) (\<lambda>den.
      then_do (linalg_division ext num den) (\<lambda>q.
      then_do (linalg_subtract ext (dict_get params key []) q) (\<lambda>r.
        Inr (params(key \<mapsto> r))))))))"

definition adam_update ::
  "extern \<Rightarrow> string list \<Rightarrow> int \<Rightarrow> matrixDict \<Rightarrow> matrixDict \<Rightarrow> model_state
     \<Rightarrow> error + model_state" where
  "adam_update ext names l v s st =
     (let suffix = to_string (l + 1);
          dkeys = map (\<lambda>n. ''d'' @ n @ suffix) names in
      then_do (vec_at (grads st) (l - 1)) (\<lambda>ge.
      then_do (get_gradientDict ge) (\<lambda>grad_map.
      then_do (for_each (momentum_step ext) dkeys (v, grad_map)) (\<lambda>vg.
      then_do (for_each (corrected_step ext beta1 (t st) (fst vg)) dkeys Map.empty)
        (\<lambda>v_corrected.
      then_do (for_each (rms_step ext) dkeys (s, snd vg)) (\<lambda>sg.
      then_do (for_each (corrected_step ext beta2 (t st) (fst sg)) dkeys Map.empty)
        (\<lambda>s_corrected.
      then_do (vec_at (layer_params st) (l - 1)) (\<lambda>params.
      then_do (for_each (update_step ext (learning_rate st) v_corrected s_corrected suffix)
                 names params) (\<lambda>params'.
        Inr (st\<lparr>grads := (grads st)[nat (l - 1) := GradDict (snd sg)],
                layer_params := (layer_params st)[nat (l - 1) := params']\<rparr>))))))))))"

text \<open>One iteration of the loop of lines 476 to 566.\<close>

definition optimize_layer :: "extern \<Rightarrow> int \<Rightarrow> model_state \<Rightarrow> error + model_state" where
  "optimize_layer ext l st =
     then_do (vec_at (Adam_params st) l) (\<lambda>vs.
     then_do (vec_at vs 0) (\<lambda>v.
     then_do (vec_at vs 1) (\<lambda>s.
     then_do (vec_at (layer_types st) (l - 1)) (\<lambda>lt.
       if lt = ''LSTM'' then adam_update ext lstm_names l v s st
       else if lt = ''Relu'' \<or> lt = ''Linear'' then adam_update ext mlp_names l v s st
       else Inr st))))"

definition optimize :: "extern \<Rightarrow> model_state \<Rightarrow> error + model_state" where
  "optimize ext st =
     then_do (for_each (optimize_layer ext) (map int [1..<Suc (length (layer_types st))]) st)
       (\<lambda>st'. Inr (st'\<lparr>t := t st' + 1\<rparr>))"

section \<open>The preparation calls of the driver\<close>

text \<open>
  Lines 20 to 33 of \<^verbatim>\<open>src/train_model.cpp\<close>: the calls that prepare the model, in the
  driver's order, starting from the namespace as the program starts.
\<close>

definition prepare_model ::
  "extern \<Rightarrow> variantTensor \<Rightarrow> Matrix \<Rightarrow> int \<Rightarrow> int \<Rightarrow> string list \<Rightarrow> int list \<Rightarrow> real
     \<Rightarrow> error + model_state" where
  "prepare_model ext X_train Y_train batch_size numUnits layer_type layer_dim lr =
     then_do (initialize_network ext
                (init_layers layer_type layer_dim
                   (init_hidden_units numUnits
                      (init_data X_train Y_train batch_size initial_state)))) (\<lambda>s.
       init_Adam ext (init_learning_rate lr s))"


section \<open>Predicates used in the statements\<close>

text \<open>
  The sizes of the chunks of a dataset of \<open>n\<close> examples cut with batch size \<open>b\<close>: all
  but the last hold \<open>b\<close> examples, the last holds the remainder, or \<open>b\<close> when \<open>b\<close>
  divides \<open>n\<close>.
\<close>

definition chunks_ok :: "nat \<Rightarrow> nat \<Rightarrow> ('a list \<times> 'b list) list \<Rightarrow> bool" where
  "chunks_ok n b cs \<longleftrightarrow>
     (\<forall>c \<in> set (butlast cs). length (fst c) = b \<and> length (snd c) = b)
     \<and> (cs \<noteq> [] \<longrightarrow> length (fst (last cs)) = (if n mod b = 0 then b else n mod b)
                    \<and> length (snd (last cs)) = (if n mod b = 0 then b else n mod b))
     \<and> (0 < n \<longrightarrow> cs \<noteq> [])"


section \<open>Stand-ins for the platform and the absent collaborators\<close>



text \<open>
  The theorems below hold for every \<open>extern\<close>. To run the model at concrete inputs, this
  stand-in gives each absent function a simple total behaviour: the recurrent forward step
  hands its input tensor on as hidden state and as next input, \<open>Dense\<close> returns its input
  as activation and records it under the key \<^verbatim>\<open>"A"+std::to_string(i-1)\<close> that \<open>back_prop\<close>
  looks for, the recurrent backward step returns its incoming gradient under
  \<^verbatim>\<open>"da0"+std::to_string(layer)\<close>, the parameter initialisers create \<open>1 \<times> 1\<close> matrices
  under the keys that \<open>init_Adam\<close> reads, and the matrix operations return their first
  matrix argument.
\<close>

definition stub_extern :: extern where
  "stub_extern =
     \<lparr>lstm_forward = (\<lambda>x a0 params i. Inr (x, x, x, ([], x))),
      Dense = (\<lambda>a_in params act i flag. Inr (a_in, [''A'' @ to_string (i - 1) \<mapsto> a_in])),
      lstm_backprop = (\<lambda>dA c layer. Inr [''da0'' @ to_string layer \<mapsto> VTensor3D dA]),
      mlp_backward = (\<lambda>a_in dA y c layer act. Inr Map.empty),
      init_params = (\<lambda>n_input n_hid d i.
         Inr (map_of (map (\<lambda>n. (n @ to_string i, [[0]])) lstm_names))),
      init_mlp_params = (\<lambda>dims i.
         Inr (map_of (map (\<lambda>n. (n @ to_string (i + 1), [[0]])) mlp_names))),
      generateZeros = (\<lambda>r c. Inr (replicate (nat r) (replicate (nat c) 0))),
      linalg_add = (\<lambda>A B. Inr A),
      linalg_add_scalar = (\<lambda>A c. Inr A),
      scalarMultiply = (\<lambda>c A. Inr A),
      linalg_division = (\<lambda>A B. Inr A),
      linalg_division_scalar = (\<lambda>A c. Inr A),
      linalg_pow = (\<lambda>A c. Inr A),
      linalg_sqrt = (\<lambda>A. Inr A),
      linalg_subtract = (\<lambda>A B. Inr A)\<rparr>"



section \<open>Auxiliary facts\<close>

lemma collect_all_Inr:
  "(\<And>x. x \<in> set xs \<Longrightarrow> f x = Inr (g x)) \<Longrightarrow> collect f xs = Inr (map g xs)"
  by (induction xs) simp_all

lemma vec_at_in_range: "i < length xs \<Longrightarrow> vec_at xs (int i) = Inr (xs ! i)"
  by (simp add: vec_at_def)

lemma to_string_digit [simp]:
  "to_string 0 = ''0''" "to_string 1 = ''1''" "to_string 2 = ''2''" "to_string 3 = ''3''"
  "to_string 4 = ''4''"
  by (simp_all add: to_string_def digits.simps digit_char_def)

lemma for_each_append:
  "for_each body (xs @ ys) a = then_do (for_each body xs a) (for_each body ys)"
  by (induction xs arbitrary: a) (simp_all split: sum.splits)

lemma for_each_preserves:
  assumes "\<And>x a a'. x \<in> set xs \<Longrightarrow> P a \<Longrightarrow> body x a = Inr a' \<Longrightarrow> P a'"
    and "P a" and "for_each body xs a = Inr r"
  shows "P r"
  using assms
proof (induction xs arbitrary: a)
  case Nil
  then show ?case by simp
next
  case (Cons x xs)
  from Cons.prems(3) obtain a' where b: "body x a = Inr a'" and r: "for_each body xs a' = Inr r"
    by (auto split: sum.splits)
  have "P a'" using Cons.prems(1) [of x a a'] Cons.prems(2) b by simp
  moreover have "\<And>y c c'. y \<in> set xs \<Longrightarrow> P c \<Longrightarrow> body y c = Inr c' \<Longrightarrow> P c'"
    using Cons.prems(1) by (meson list.set_intros(2))
  ultimately show ?case using Cons.IH [of a'] r by blast
qed

lemma vec_set_length: "vec_set xs i v = Inr ys \<Longrightarrow> length ys = length xs"
  by (auto simp: vec_set_def split: if_splits)

lemma then_doE:
  assumes "then_do m f = Inr r"
  obtains v where "m = Inr v" and "f v = Inr r"
  using assms by (cases m) simp_all

lemma then_do_dropE:
  assumes "then_do m f = Inr r"
  obtains v where "f v = Inr r"
  using assms by (cases m) simp_all

lemma stub_extern_simps [simp]:
  "lstm_forward stub_extern x a0 params i = Inr (x, x, x, ([], x))"
  "Dense stub_extern a_in params act i flag = Inr (a_in, [''A'' @ to_string (i - 1) \<mapsto> a_in])"
  "lstm_backprop stub_extern dA c layer = Inr [''da0'' @ to_string layer \<mapsto> VTensor3D dA]"
  "mlp_backward stub_extern a_in dM y mc layer act = Inr Map.empty"
  "init_params stub_extern n_input n_hid d i
     = Inr (map_of (map (\<lambda>n. (n @ to_string i, [[0]])) lstm_names))"
  "init_mlp_params stub_extern dims i
     = Inr (map_of (map (\<lambda>n. (n @ to_string (i + 1), [[0]])) mlp_names))"
  "generateZeros stub_extern r k = Inr (replicate (nat r) (replicate (nat k) 0))"
  "linalg_add stub_extern A B = Inr A"
  "linalg_add_scalar stub_extern A x1 = Inr A"
  "scalarMultiply stub_extern x1 A = Inr A"
  "linalg_division stub_extern A B = Inr A"
  "linalg_division_scalar stub_extern A x1 = Inr A"
  "linalg_pow stub_extern A x1 = Inr A"
  "linalg_sqrt stub_extern A = Inr A"
  "linalg_subtract stub_extern A B = Inr A"
  by (simp_all add: stub_extern_def)


section \<open>Properties of the loss\<close>







section \<open>Properties of the shape reconciliation\<close>

lemma reshape_T_last:
  assumes "X \<noteq> []" and "\<And>e. e \<in> set X \<Longrightarrow> e \<noteq> []"
  shows "reshape_last_timestep_T X = Inr (map last X)"
proof -
  have x0: "vec_at X 0 = Inr (X ! 0)"
    using assms(1) vec_at_in_range [of 0 X] by simp
  have "X ! 0 \<in> set X" using assms(1) by simp
  then have "X ! 0 \<noteq> []" using assms(2) by blast
  then have x00: "vec_at (X ! 0) 0 = Inr (X ! 0 ! 0)"
    using vec_at_in_range [of 0 "X ! 0"] by simp
  have "collect (\<lambda>i. if X ! i = [] then Inl (invalid_argument ''Hidden state is empty'')
                      else Inr (last (X ! i))) [0..<length X]
        = Inr (map (\<lambda>i. last (X ! i)) [0..<length X])"
    by (rule collect_all_Inr) (use assms(2) in auto)
  moreover have "map (\<lambda>i. last (X ! i)) [0..<length X] = map last X"
    by (rule nth_equalityI) simp_all
  ultimately show ?thesis
    by (simp add: reshape_last_timestep_T_def x0 x00)
qed

lemma reshape_M_replicate:
  assumes "M \<noteq> []" and "X0 \<noteq> []"
  shows "reshape_last_timestep_M (VTensor3D X0) M = Inr (map (\<lambda>r. replicate (length (X0 ! 0)) r) M)"
proof -
  have m0: "vec_at M 0 = Inr (M ! 0)"
    using assms(1) vec_at_in_range [of 0 M] by simp
  have x0: "vec_at X0 0 = Inr (X0 ! 0)"
    using assms(2) vec_at_in_range [of 0 X0] by simp
  have "map (\<lambda>k. r) [0..<n] = replicate n r" for n and r :: "real list"
    by (rule nth_equalityI) simp_all
  then have "map (\<lambda>i. map (\<lambda>k. M ! i) [0..<n]) [0..<length M] = map (\<lambda>r. replicate n r) M" for n
    by (intro nth_equalityI) simp_all
  then show ?thesis
    by (simp add: reshape_last_timestep_M_def m0 x0 get_Tensor3D_def)
qed

text \<open>
  C7, amended. Let \<open>X\<close> hold at least one example, every example \<open>n \<ge> 1\<close> timesteps,
  \<open>n\<close> being the number of timesteps of the first example of the stored input. Then the
  3D to 2D extraction followed by the 2D to 3D broadcast succeeds, and in its result every
  example has \<open>n\<close> timesteps, each equal to the last timestep of that example in \<open>X\<close>.
  The result is \<open>X\<close> itself when \<open>n = 1\<close>, and in general exactly when every timestep
  of every example of \<open>X\<close> equals the last one of that example.
\<close>

theorem reshape_round_trip:
  assumes "X \<noteq> []" and "\<forall>e \<in> set X. length e = n" and "1 \<le> n"
    and "xtr = VTensor3D X0" and "X0 \<noteq> []" and "length (X0 ! 0) = n"
  shows "\<exists>R. then_do (reshape_last_timestep_T X) (reshape_last_timestep_M xtr) = Inr R
           \<and> length R = length X
           \<and> (\<forall>i<length X. length (R ! i) = n \<and> (\<forall>k<n. R ! i ! k = last (X ! i)))
           \<and> (n = 1 \<longrightarrow> R = X)
           \<and> (R = X \<longleftrightarrow> (\<forall>i<length X. \<forall>k<n. X ! i ! k = last (X ! i)))"
proof -
  let ?R = "map (\<lambda>r. replicate n r) (map last X)"
  have ne: "e \<noteq> []" if "e \<in> set X" for e
    using assms(2,3) that by fastforce
  have T: "reshape_last_timestep_T X = Inr (map last X)"
    using reshape_T_last [OF assms(1)] ne by blast
  have M: "reshape_last_timestep_M xtr (map last X) = Inr ?R"
    using reshape_M_replicate [of "map last X" X0] assms(1,4,5,6) by simp
  have run: "then_do (reshape_last_timestep_T X) (reshape_last_timestep_M xtr) = Inr ?R"
    by (simp add: T M)
  have len: "length ?R = length X" by simp
  have rows: "\<forall>i<length X. length (?R ! i) = n \<and> (\<forall>k<n. ?R ! i ! k = last (X ! i))"
    by simp
  have lenX: "length (X ! i) = n" if "i < length X" for i
    using assms(2) that by simp
  have eq: "?R = X \<longleftrightarrow> (\<forall>i<length X. \<forall>k<n. X ! i ! k = last (X ! i))"
  proof
    assume "?R = X"
    then have "\<forall>i<length X. \<forall>k<n. ?R ! i ! k = X ! i ! k" by simp
    then show "\<forall>i<length X. \<forall>k<n. X ! i ! k = last (X ! i)" by simp
  next
    assume h: "\<forall>i<length X. \<forall>k<n. X ! i ! k = last (X ! i)"
    show "?R = X"
    proof (rule nth_equalityI)
      show "length ?R = length X" by simp
    next
      fix i assume "i < length ?R"
      then have i: "i < length X" by simp
      have "replicate n (last (X ! i)) = X ! i"
        by (rule nth_equalityI) (use h i lenX in auto)
      then show "?R ! i = X ! i" using i by simp
    qed
  qed
  have one: "n = 1 \<longrightarrow> ?R = X"
  proof
    assume n1: "n = 1"
    have "\<forall>i<length X. \<forall>k<n. X ! i ! k = last (X ! i)"
    proof (intro allI impI)
      fix i k assume i: "i < length X" and k: "k < n"
      then have "length (X ! i) = 1" and "k = 0" using lenX n1 by auto
      then show "X ! i ! k = last (X ! i)"
        by (cases "X ! i") (auto simp: last_conv_nth)
    qed
    with eq show "?R = X" by blast
  qed
  from run len rows one eq show ?thesis by blast
qed

text \<open>The round trip of a tensor of two examples with two timesteps each.\<close>

theorem reshape_round_trip_witness:
  "\<exists>R. then_do (reshape_last_timestep_T [[[1, 2], [3, 4]], [[5, 6], [7, 8]]])
          (reshape_last_timestep_M (VTensor3D [[[0], [0]]])) = Inr R
     \<and> length R = length ([[[1, 2], [3, 4]], [[5, 6], [7, 8]]] :: Tensor3D)
     \<and> (\<forall>i<length ([[[1, 2], [3, 4]], [[5, 6], [7, 8]]] :: Tensor3D).
           length (R ! i) = 2
           \<and> (\<forall>k<2. R ! i ! k = last ([[[1, 2], [3, 4]], [[5, 6], [7, 8]]] ! i)))
     \<and> ((2 :: nat) = 1 \<longrightarrow> R = [[[1, 2], [3, 4]], [[5, 6], [7, 8]]])
     \<and> (R = [[[1, 2], [3, 4]], [[5, 6], [7, 8]]] \<longleftrightarrow>
          (\<forall>i<length ([[[1, 2], [3, 4]], [[5, 6], [7, 8]]] :: Tensor3D).
             \<forall>k<2. ([[[1, 2], [3, 4]], [[5, 6], [7, 8]]] :: Tensor3D) ! i ! k
                     = last ([[[1, 2], [3, 4]], [[5, 6], [7, 8]]] ! i)))"
  by (rule reshape_round_trip [where ?X0.0 = "[[[0], [0]]]"]) simp_all

text \<open>
  C7 as stated says that the round trip gives \<open>X\<close> back only when there is one timestep.
  A tensor whose two timesteps are equal comes back unchanged.
\<close>

theorem reshape_round_trip_counterexample:
  "then_do (reshape_last_timestep_T [[[1], [1]]]) (reshape_last_timestep_M (VTensor3D [[[1], [1]]]))
     = Inr [[[1], [1]]]
   \<and> length ([[[1], [1]]] ! 0 :: real list list) \<noteq> 1"
  by (simp add: reshape_last_timestep_T_def reshape_last_timestep_M_def vec_at_def get_Tensor3D_def)

section \<open>Properties of the minibatch generator\<close>

lemma size_t_add_small:
  assumes "int k + b < 2 ^ 64" and "0 \<le> b"
  shows "size_t_add k b = k + nat b"
proof -
  have "(int k + b) mod 2 ^ 64 = int k + b"
    using assms by simp
  then show ?thesis using assms(2) by (simp add: size_t_add_def nat_add_distrib)
qed

lemma slice_batch_length: "length (slice_batch xs k e) = e - k"
  by (simp add: slice_batch_def)

lemma slice_batch_append:
  "k \<le> e \<Longrightarrow> e \<le> m \<Longrightarrow> slice_batch xs k e @ map (\<lambda>i. xs ! i) [e..<m] = map (\<lambda>i. xs ! i) [k..<m]"
proof -
  assume ke: "k \<le> e" and em: "e \<le> m"
  have "[k..<e + (m - e)] = [k..<e] @ [e..<e + (m - e)]"
    using ke by (rule upt_add_eq_append)
  then have "[k..<m] = [k..<e] @ [e..<m]" using em by simp
  then show ?thesis by (simp add: slice_batch_def)
qed

lemma minibatch_loop_result:
  assumes "0 < b" and "int (length sX) + int b \<le> 2 ^ 64" and "length sY = length sX"
  shows "\<exists>cs. minibatch_loop sX sY (int b) k acc = Some (acc @ cs)
           \<and> concat (map fst cs) = map (\<lambda>i. sX ! i) [k..<length sX]
           \<and> concat (map snd cs) = map (\<lambda>i. sY ! i) [k..<length sX]
           \<and> chunks_ok (length sX - k) b cs"
proof (induction "length sX - k" arbitrary: k acc rule: less_induct)
  case less
  let ?m = "length sX"
  show ?case
  proof (cases "k < ?m")
    case False
    then have "minibatch_loop sX sY (int b) k acc = Some acc"
      by (subst minibatch_loop.simps) simp
    moreover have "chunks_ok (?m - k) b ([] :: minibatch list)"
      using False by (simp add: chunks_ok_def)
    moreover have "[k..<?m] = []" using False by simp
    ultimately show ?thesis by simp
  next
    case True
    have step: "size_t_add k (int b) = k + b"
      using size_t_add_small [of k "int b"] True assms(2) by simp
    let ?e = "min (k + b) ?m"
    let ?c = "(slice_batch sX k ?e, slice_batch sY k ?e)"
    have unfold: "minibatch_loop sX sY (int b) k acc
        = minibatch_loop sX sY (int b) (k + b) (acc @ [?c])"
      by (subst minibatch_loop.simps) (simp add: True step Let_def)
    have "?m - (k + b) < ?m - k" using True assms(1) by simp
    from less [OF this, of "acc @ [?c]"]
    obtain cs where rec: "minibatch_loop sX sY (int b) (k + b) (acc @ [?c]) = Some ((acc @ [?c]) @ cs)"
      and cx: "concat (map fst cs) = map (\<lambda>i. sX ! i) [k + b..<?m]"
      and cy: "concat (map snd cs) = map (\<lambda>i. sY ! i) [k + b..<?m]"
      and ok: "chunks_ok (?m - (k + b)) b cs"
      by blast
    have res: "minibatch_loop sX sY (int b) k acc = Some (acc @ (?c # cs))"
      using unfold rec by simp
    have ke: "k \<le> ?e" "?e \<le> ?m" using True by simp_all
    have rest: "[k + b..<?m] = [?e..<?m]"
      by (cases "k + b \<le> ?m") (simp_all add: min_def)
    have fx: "concat (map fst (?c # cs)) = map (\<lambda>i. sX ! i) [k..<?m]"
      using slice_batch_append [OF ke, of sX] cx rest by simp
    have fy: "concat (map snd (?c # cs)) = map (\<lambda>i. sY ! i) [k..<?m]"
      using slice_batch_append [OF ke, of sY] cy rest by simp
    have lens: "chunks_ok (?m - k) b (?c # cs)"
    proof (cases "k + b < ?m")
      case lt: True
      then have ne: "cs \<noteq> []" using ok by (simp add: chunks_ok_def)
      have e: "?e = k + b" using lt by simp
      have "?m - k = (?m - (k + b)) + b" using lt by simp
      then have md: "(?m - k) mod b = (?m - (k + b)) mod b"
        by (simp only: mod_add_self2)
      show ?thesis
        using ok ne lt unfolding chunks_ok_def e md
        by (simp add: slice_batch_length)
    next
      case ge: False
      then have "concat (map fst cs) = []" using cx by simp
      have empty: "cs = []"
      proof (rule ccontr)
        assume "cs \<noteq> []"
        then have "length (fst (last cs)) > 0"
          using ok assms(1) by (auto simp: chunks_ok_def split: if_splits)
        then have "fst (last cs) \<noteq> []" by auto
        moreover have "fst (last cs) \<in> set (map fst cs)" using \<open>cs \<noteq> []\<close> by simp
        ultimately have "concat (map fst cs) \<noteq> []" unfolding concat_eq_Nil_conv by blast
        then show False using \<open>concat (map fst cs) = []\<close> by simp
      qed
      have e: "?e = ?m" using ge by simp
      have le: "?m - k \<le> b" using ge by simp
      have "(if (?m - k) mod b = 0 then b else (?m - k) mod b) = ?m - k"
      proof (cases "?m - k = b")
        case True then show ?thesis by simp
      next
        case False
        then have "?m - k < b" using le by simp
        then show ?thesis using \<open>k < ?m\<close> by simp
      qed
      then show ?thesis
        unfolding chunks_ok_def e empty using assms(3) by (simp add: slice_batch_length)
    qed
    from res fx fy lens show ?thesis by blast
  qed
qed


lemma shuffle_dataset_result:
  assumes "length perm = length X" and "\<And>p. p \<in> set perm \<Longrightarrow> p < length X"
    and "length Y = length X"
  shows "shuffle_dataset X Y perm = Inr (map (\<lambda>p. (X ! p, Y ! p)) perm)"
proof -
  have "shuffle_dataset X Y perm = Inr (map (\<lambda>i. (X ! (perm ! i), Y ! (perm ! i))) [0..<length X])"
    unfolding shuffle_dataset_def
  proof (rule collect_all_Inr)
    fix i assume "i \<in> set [0..<length X]"
    then have i: "i < length perm" using assms(1) by simp
    then have p: "perm ! i < length X" using assms(2) by simp
    then have p': "perm ! i < length Y" using assms(3) by simp
    show "then_do (vec_at perm (int i)) (\<lambda>p. then_do (vec_at X (int p)) (\<lambda>x.
             then_do (vec_at Y (int p)) (\<lambda>y. Inr (x, y))))
          = Inr (X ! (perm ! i), Y ! (perm ! i))"
      by (simp add: vec_at_in_range [OF i] vec_at_in_range [OF p] vec_at_in_range [OF p'])
  qed
  moreover have "map (\<lambda>i. (X ! (perm ! i), Y ! (perm ! i))) [0..<length X]
      = map (\<lambda>p. (X ! p, Y ! p)) perm"
    by (rule nth_equalityI) (simp_all add: assms(1))
  ultimately show ?thesis by simp
qed

lemma mset_map_permutation:
  assumes "mset perm = mset [0..<length xs]"
  shows "mset (map (\<lambda>p. xs ! p) perm) = mset xs"
proof -
  have "mset (map (\<lambda>p. xs ! p) perm) = image_mset (\<lambda>p. xs ! p) (mset perm)" by simp
  also have "\<dots> = image_mset (\<lambda>p. xs ! p) (mset [0..<length xs])" using assms by simp
  also have "\<dots> = mset (map (\<lambda>p. xs ! p) [0..<length xs])" by simp
  also have "map (\<lambda>p. xs ! p) [0..<length xs] = xs" by (rule map_nth)
  finally show ?thesis .
qed

text \<open>
  C5, amended. For a dataset of \<open>m \<ge> 1\<close> examples with as many target rows, whose first
  example has at least one timestep, a batch size \<open>b \<ge> 1\<close> and a shuffle that permutes the
  indices, \<open>generate_minibatches\<close> returns chunks whose concatenated inputs are the examples
  of \<open>X\<close> in the shuffled order, each index used once, and whose concatenated targets are
  the rows of \<open>Y\<close> in the same order. Every chunk but the last holds \<open>b\<close> examples; the
  last holds \<open>m mod b\<close>, or \<open>b\<close> when \<open>b\<close> divides \<open>m\<close>. Sizes are within the range of
  \<^verbatim>\<open>int\<close>.
\<close>

theorem generate_minibatches_partition:
  assumes "X \<noteq> []" and "X ! 0 \<noteq> []" and "length Y = length X"
    and "1 \<le> batch_size" and "batch_size < 2 ^ 31" and "length X < 2 ^ 31"
    and "mset (shuffle seed [0..<length X]) = mset [0..<length X]"
  shows "\<exists>chunks. generate_minibatches shuffle X Y batch_size seed = Some (Inr chunks)
     \<and> concat (map fst chunks) = map (\<lambda>p. X ! p) (shuffle seed [0..<length X])
     \<and> concat (map snd chunks) = map (\<lambda>p. Y ! p) (shuffle seed [0..<length X])
     \<and> mset (concat (map fst chunks)) = mset X
     \<and> mset (concat (map snd chunks)) = mset Y
     \<and> chunks \<noteq> []
     \<and> (\<forall>c \<in> set (butlast chunks).
           length (fst c) = nat batch_size \<and> length (snd c) = nat batch_size)
     \<and> length (fst (last chunks))
           = (if length X mod nat batch_size = 0 then nat batch_size
              else length X mod nat batch_size)
     \<and> length (snd (last chunks)) = length (fst (last chunks))"
proof -
  let ?m = "length X"
  let ?perm = "shuffle seed [0..<?m]"
  let ?b = "nat batch_size"
  let ?sh = "map (\<lambda>p. (X ! p, Y ! p)) ?perm"
  have len: "length ?perm = ?m"
    using assms(7) by (metis length_upt mset_eq_length minus_nat.diff_0)
  have rng: "p < ?m" if "p \<in> set ?perm" for p
  proof -
    have "set ?perm = set [0..<?m]" using assms(7) by (rule mset_eq_setD)
    then show ?thesis using that by simp
  qed
  have x0: "vec_at X 0 = Inr (X ! 0)"
    using assms(1) vec_at_in_range [of 0 X] by simp
  have x00: "vec_at (X ! 0) 0 = Inr (X ! 0 ! 0)"
    using assms(2) vec_at_in_range [of 0 "X ! 0"] by simp
  have sh: "shuffle_dataset X Y ?perm = Inr ?sh"
    using shuffle_dataset_result [OF len rng assms(3)] by blast
  have sx: "map fst ?sh = map (\<lambda>p. X ! p) ?perm" and sy: "map snd ?sh = map (\<lambda>p. Y ! p) ?perm"
    by (simp_all add: comp_def)
  have b: "int ?b = batch_size" "0 < ?b" using assms(4) by simp_all
  have bound: "int (length (map fst ?sh)) + int ?b \<le> 2 ^ 64"
    using assms(5,6) len b by simp
  have "length (map snd ?sh) = length (map fst ?sh)" by simp
  from minibatch_loop_result [OF b(2) bound this, of 0 "[]"]
  obtain cs where run: "minibatch_loop (map fst ?sh) (map snd ?sh) batch_size 0 [] = Some cs"
    and cx: "concat (map fst cs) = map (\<lambda>i. map fst ?sh ! i) [0..<length (map fst ?sh)]"
    and cy: "concat (map snd cs) = map (\<lambda>i. map snd ?sh ! i) [0..<length (map fst ?sh)]"
    and ok: "chunks_ok (length (map fst ?sh) - 0) ?b cs"
    unfolding b(1) by auto
  have gen: "generate_minibatches shuffle X Y batch_size seed = Some (Inr cs)"
    by (simp only: generate_minibatches_def Let_def x0 x00 sh then_do.simps sum.case run
        option.map)
  have cx': "concat (map fst cs) = map (\<lambda>p. X ! p) ?perm"
    unfolding cx using map_nth [of "map fst ?sh"] sx by simp
  have "length (map fst ?sh) = length (map snd ?sh)" by simp
  then have cy': "concat (map snd cs) = map (\<lambda>p. Y ! p) ?perm"
    unfolding cy using map_nth [of "map snd ?sh"] sy by simp
  have mx: "mset (concat (map fst cs)) = mset X"
    unfolding cx' using assms(7) by (rule mset_map_permutation)
  have my: "mset (concat (map snd cs)) = mset Y"
    unfolding cy' using assms(7) mset_map_permutation [of ?perm Y] assms(3) by simp
  have m_pos: "0 < ?m" using assms(1) by simp
  have ok': "chunks_ok ?m ?b cs" using ok len by simp
  have ne: "cs \<noteq> []" using ok' m_pos by (simp add: chunks_ok_def)
  have full: "\<forall>c \<in> set (butlast cs). length (fst c) = ?b \<and> length (snd c) = ?b"
    using ok' by (simp add: chunks_ok_def)
  have lastx: "length (fst (last cs)) = (if ?m mod ?b = 0 then ?b else ?m mod ?b)"
    and lasty: "length (snd (last cs)) = length (fst (last cs))"
    using ok' ne by (simp_all add: chunks_ok_def)
  from gen cx' cy' mx my ne full lastx lasty show ?thesis by blast
qed

text \<open>Three examples, batch size two, the reversal as the shuffle.\<close>

theorem generate_minibatches_partition_witness:
  "\<exists>chunks. generate_minibatches (\<lambda>seed xs. rev xs) [[[1]], [[2]], [[3]]] [[10], [20], [30]] 2 11
                 = Some (Inr chunks)
     \<and> concat (map fst chunks)
         = map (\<lambda>p. [[[1]], [[2]], [[3]]] ! p) ((\<lambda>seed xs. rev xs) (11 :: int) [0..<length ([[[1]], [[2]], [[3]]] :: Tensor3D)])
     \<and> concat (map snd chunks)
         = map (\<lambda>p. [[10], [20], [30]] ! p) ((\<lambda>seed xs. rev xs) (11 :: int) [0..<length ([[[1]], [[2]], [[3]]] :: Tensor3D)])
     \<and> mset (concat (map fst chunks)) = mset [[[1]], [[2]], [[3]]]
     \<and> mset (concat (map snd chunks)) = mset [[10], [20], [30]]
     \<and> chunks \<noteq> []
     \<and> (\<forall>c \<in> set (butlast chunks). length (fst c) = nat 2 \<and> length (snd c) = nat 2)
     \<and> length (fst (last chunks))
           = (if length ([[[1]], [[2]], [[3]]] :: Tensor3D) mod nat 2 = 0 then nat 2
              else length ([[[1]], [[2]], [[3]]] :: Tensor3D) mod nat 2)
     \<and> length (snd (last chunks)) = length (fst (last chunks))"
  by (rule generate_minibatches_partition) simp_all

text \<open>
  C5 as stated covers every non-empty dataset. For a dataset whose first example has no
  timestep the allocation of line 85 reads \<^verbatim>\<open>X[0][0]\<close> outside the vector, and no chunks
  are returned.
\<close>

theorem generate_minibatches_counterexample:
  "generate_minibatches (\<lambda>seed xs. xs) [[]] [[0]] 1 0 = Some (Inl out_of_bounds)"
  by (simp add: generate_minibatches_def vec_at_def)

section \<open>Properties of the backward pass\<close>

lemma back_prop_layer_reshape_irrelevant:
  "back_prop_layer ext f g a layer st = back_prop_layer ext f' g' a layer st"
proof -
  obtain s dM dT where st: "st = (s, dM, dT)" by (cases st)
  show ?thesis
  proof (cases "vec_at (layer_types s) (layer - 1)")
    case (Inl e)
    then show ?thesis by (simp add: st back_prop_layer_def)
  next
    case (Inr lt)
    then show ?thesis
      by (cases "lt = ''LSTM''") (simp_all add: st back_prop_layer_def)
  qed
qed

text \<open>
  C9. In \<open>back_prop\<close> the 2D to 3D reshape inside the recurrent case and the 3D to 2D
  reshape inside the feed-forward case are never executed, whatever the architecture and
  the input: one iteration, the whole loop and \<open>back_prop\<close> itself give the same outcome
  when the two reshape functions are replaced by any others, also by functions that
  always fail.
\<close>

theorem back_prop_reshape_branches_dead:
  "back_prop_layer ext to_tensor to_matrix a_in_matrix layer st
     = back_prop_layer ext to_tensor' to_matrix' a_in_matrix layer st
   \<and> back_prop_loop ext to_tensor to_matrix a_in_matrix st
     = back_prop_loop ext to_tensor' to_matrix' a_in_matrix st
   \<and> back_prop ext s
     = then_do (get_Tensor3D (x_train s)) (\<lambda>x3.
       then_do (reshape_last_timestep_T x3) (\<lambda>a_in.
       then_do (seed_gradient ext s (length x3)) (\<lambda>dA_matrix.
       then_do (back_prop_loop ext (\<lambda>_. Inl out_of_bounds) (\<lambda>_. Inl out_of_bounds) a_in
                  (s, dA_matrix, [])) (\<lambda>r. Inr (fst r)))))"
proof -
  have layer_eq: "back_prop_layer ext f g a = back_prop_layer ext f' g' a" for f g f' g' a
    by (intro ext) (rule back_prop_layer_reshape_irrelevant)
  have loop_eq: "back_prop_loop ext f g a = back_prop_loop ext f' g' a" for f g f' g' a
    unfolding back_prop_loop_def layer_eq [of f g a f' g'] ..
  show ?thesis
    unfolding back_prop_def Let_def
      loop_eq [of "reshape_last_timestep_M (x_train s)" reshape_last_timestep_T _
                  "\<lambda>_. Inl out_of_bounds" "\<lambda>_. Inl out_of_bounds"]
    using layer_eq [of to_tensor to_matrix a_in_matrix to_tensor' to_matrix']
      loop_eq [of to_tensor to_matrix a_in_matrix to_tensor' to_matrix']
    by simp
qed

section \<open>Properties of the optimizer\<close>

lemma resize_length: "length (resize xs n) = n"
  by (simp add: resize_def)

lemma init_Adam_layer_preserves:
  assumes "init_Adam_layer ext i s = Inr s'"
  shows "layer_types s' = layer_types s \<and> length (Adam_params s') = length (Adam_params s)"
  using assms unfolding init_Adam_layer_def
  by (elim then_doE) (auto dest: vec_set_length)

lemma init_Adam_length:
  assumes "init_Adam ext s0 = Inr s1"
  shows "layer_types s1 = layer_types s0 \<and> length (Adam_params s1) = length (layer_types s1)"
proof -
  let ?P = "\<lambda>s. layer_types s = layer_types s0 \<and> length (Adam_params s) = length (layer_types s0)"
  have "?P s1"
  proof (rule for_each_preserves [where P = ?P and body = "init_Adam_layer ext"])
    show "for_each (init_Adam_layer ext) (map int [1..<Suc (length (layer_types s0))])
            (s0\<lparr>Adam_params := resize (Adam_params s0) (length (layer_types s0))\<rparr>) = Inr s1"
      using assms by (simp add: init_Adam_def)
    show "?P (s0\<lparr>Adam_params := resize (Adam_params s0) (length (layer_types s0))\<rparr>)"
      by (simp add: resize_length)
  next
    fix x a a'
    assume "?P a" and "init_Adam_layer ext x a = Inr a'"
    then show "?P a'" using init_Adam_layer_preserves [of ext x a a'] by simp
  qed
  then show ?thesis by simp
qed

lemma adam_update_preserves:
  assumes "adam_update ext names l v s st = Inr st'"
  shows "Adam_params st' = Adam_params st \<and> layer_types st' = layer_types st \<and> t st' = t st"
  using assms unfolding adam_update_def Let_def
  by (elim then_do_dropE) auto

lemma optimize_layer_preserves:
  assumes "optimize_layer ext l st = Inr st'"
  shows "Adam_params st' = Adam_params st \<and> layer_types st' = layer_types st \<and> t st' = t st"
  using assms unfolding optimize_layer_def
  by (elim then_do_dropE) (auto dest: adam_update_preserves split: if_splits)

lemma optimize_layer_last:
  assumes "length (Adam_params st) = length (layer_types st)"
  shows "optimize_layer ext (int (length (layer_types st))) st = Inl out_of_bounds"
  using assms by (simp add: optimize_layer_def vec_at_def)

lemma optimize_loop_preserves:
  assumes "for_each (optimize_layer ext) ls st = Inr st'"
  shows "Adam_params st' = Adam_params st \<and> layer_types st' = layer_types st \<and> t st' = t st"
proof -
  let ?P = "\<lambda>s. Adam_params s = Adam_params st \<and> layer_types s = layer_types st \<and> t s = t st"
  have "?P st'"
    by (rule for_each_preserves [where P = ?P and body = "optimize_layer ext" and xs = ls and a = st])
      (use assms optimize_layer_preserves in auto)
  then show ?thesis .
qed

text \<open>
  C10, amended. \<open>init_Adam\<close> leaves \<open>Adam_params\<close> with exactly \<open>L\<close> entries, one per
  layer, so its valid indices are \<open>0, \<dots>, L - 1\<close>. The loop of \<open>optimize\<close> runs over
  \<open>l = 1, \<dots>, L\<close> and each iteration starts by reading \<open>Adam_params[l]\<close>. For \<open>L \<ge> 1\<close>:
  when the iterations \<open>1, \<dots>, L - 1\<close> return, the iteration \<open>L\<close> reads \<open>Adam_params[L]\<close>,
  outside the vector, and the call ends in this out-of-bounds read; when one of the iterations
  \<open>1, \<dots>, L - 1\<close> fails, the call ends with the error of that iteration and \<open>Adam_params[L]\<close>
  is not read. In both cases the call of \<open>optimize\<close> does not return normally.
\<close>

theorem optimize_reads_Adam_params_out_of_bounds:
  assumes "init_Adam ext0 s0 = Inr s1"
    and "Adam_params s = Adam_params s1" and "layer_types s = layer_types s1"
    and "layer_types s \<noteq> []"
  shows "length (Adam_params s) = length (layer_types s)
     \<and> int (length (layer_types s)) \<in> set (map int [1..<Suc (length (layer_types s))])
     \<and> vec_at (Adam_params s) (int (length (layer_types s))) = Inl out_of_bounds
     \<and> (\<forall>s'. for_each (optimize_layer ext) (map int [1..<length (layer_types s)]) s = Inr s'
           \<longrightarrow> optimize_layer ext (int (length (layer_types s))) s' = Inl out_of_bounds
             \<and> optimize ext s = Inl out_of_bounds)
     \<and> (\<forall>e. for_each (optimize_layer ext) (map int [1..<length (layer_types s)]) s = Inl e
           \<longrightarrow> optimize ext s = Inl e)
     \<and> (\<exists>e. optimize ext s = Inl e)"
proof -
  let ?L = "length (layer_types s)"
  have len: "length (Adam_params s) = ?L"
    using init_Adam_length [OF assms(1)] assms(2,3) by simp
  have pos: "0 < ?L" using assms(4) by simp
  then have one: "1 \<le> ?L" by linarith
  have "?L \<in> set [1..<Suc ?L]" using one by simp
  then have mem: "int ?L \<in> set (map int [1..<Suc ?L])" by (simp only: set_map image_eqI)
  have oob: "vec_at (Adam_params s) (int ?L) = Inl out_of_bounds"
    using len by (simp add: vec_at_def)
  have split: "map int [1..<Suc ?L] = map int [1..<?L] @ [int ?L]"
    using one by simp
  have loop: "for_each (optimize_layer ext) (map int [1..<Suc ?L]) s
      = then_do (for_each (optimize_layer ext) (map int [1..<?L]) s)
          (\<lambda>s'. then_do (optimize_layer ext (int ?L) s') Inr)"
    unfolding split for_each_append
    by (rule arg_cong [where f = "then_do _"]) (auto split: sum.splits)
  have last: "optimize_layer ext (int ?L) s' = Inl out_of_bounds"
    if "for_each (optimize_layer ext) (map int [1..<?L]) s = Inr s'" for s'
  proof -
    have "Adam_params s' = Adam_params s" "layer_types s' = layer_types s"
      using optimize_loop_preserves [OF that] by simp_all
    then show ?thesis using optimize_layer_last [of s' ext] len by simp
  qed
  have fails: "optimize ext s = Inl out_of_bounds"
    if "for_each (optimize_layer ext) (map int [1..<?L]) s = Inr s'" for s'
    unfolding optimize_def loop that then_do.simps last [OF that] ..
  have early: "optimize ext s = Inl e"
    if "for_each (optimize_layer ext) (map int [1..<?L]) s = Inl e" for e
    unfolding optimize_def loop that then_do.simps ..
  have any: "\<exists>e. optimize ext s = Inl e"
  proof (cases "for_each (optimize_layer ext) (map int [1..<?L]) s")
    case (Inl e)
    then show ?thesis using early by blast
  next
    case (Inr s')
    then show ?thesis using fails by blast
  qed
  from len mem oob last fails early any show ?thesis by blast
qed

section \<open>Properties of the forward and backward passes\<close>

lemma forward_layer_only_cache:
  assumes "forward_layer ext x a i (s, loc) = Inr r"
  shows "fst r = s\<lparr>cache := cache (fst r)\<rparr>"
  using assms unfolding forward_layer_def Let_def prod.case
  by (elim then_do_dropE) (auto split: if_splits elim!: then_do_dropE)

lemma forward_loop_only_cache:
  assumes "for_each (forward_layer ext x a) ls q = Inr r"
  shows "fst r = (fst q)\<lparr>cache := cache (fst r)\<rparr>"
  using assms
proof (induction ls arbitrary: q)
  case Nil
  then show ?case by simp
next
  case (Cons l ls)
  from Cons.prems obtain q1 where step: "forward_layer ext x a l q = Inr q1"
    and rest: "for_each (forward_layer ext x a) ls q1 = Inr r"
    by (auto split: sum.splits)
  obtain s loc where q: "q = (s, loc)" by (cases q)
  have a: "fst q1 = (fst q)\<lparr>cache := cache (fst q1)\<rparr>"
    using forward_layer_only_cache [of ext x a l s loc q1] step q by simp
  have b: "fst r = (fst q1)\<lparr>cache := cache (fst r)\<rparr>"
    using Cons.IH [OF rest] .
  show ?case by (subst b, subst a) simp
qed

lemma forward_prop_only_cache:
  assumes "forward_prop ext s x = Inr s1"
  shows "s1 = s\<lparr>cache := cache s1, finalPrediction := finalPrediction s1\<rparr>"
proof -
  from assms obtain a0 r where loop: "for_each (forward_layer ext x a0)
        (map int [1..<Suc (length (layer_types s))])
        (s, \<lparr>a_out = [], first_mlp_encountered = False, new_x_state = [], new_hidden_state = []\<rparr>)
      = Inr r"
    and s1: "s1 = (fst r)\<lparr>finalPrediction := a_out (snd r)\<rparr>"
    unfolding forward_prop_def Let_def
    by (elim then_doE) auto
  have "fst r = s\<lparr>cache := cache (fst r)\<rparr>"
    using forward_loop_only_cache [OF loop] by simp
  then obtain c where "fst r = s\<lparr>cache := c\<rparr>" ..
  then have "s1 = s\<lparr>cache := c, finalPrediction := a_out (snd r)\<rparr>" using s1 by simp
  then show ?thesis by simp
qed


lemma store_entry_length:
  "store_entry entries L i e = Inr r \<Longrightarrow> length r \<le> length entries + 1"
  by (auto simp: store_entry_def split: if_splits dest: vec_set_length)

lemma back_prop_layer_grads:
  assumes "back_prop_layer ext f g a layer (s, dM, dT) = Inr r"
  shows "fst r = s\<lparr>grads := grads (fst r)\<rparr>
     \<and> length (grads (fst r)) \<le> Suc (length (grads s))
     \<and> (layer = int (length (layer_types s)) \<longrightarrow> grads (fst r) = grads s)"
proof -
  from assms obtain lt where lt: "vec_at (layer_types s) (layer - 1) = Inr lt"
    unfolding back_prop_layer_def Let_def prod.case by (elim then_doE)
  show ?thesis
  proof (cases "lt = ''LSTM''")
    case True
    with assms lt show ?thesis
      unfolding back_prop_layer_def Let_def prod.case
      by (auto elim!: then_doE split: cache_entry.splits if_splits dest!: store_entry_length)
  next
    case nl: False
    show ?thesis
    proof (cases "lt = ''Relu'' \<or> lt = ''Linear''")
      case True
      with assms lt nl show ?thesis
        unfolding back_prop_layer_def Let_def prod.case
        by (auto elim!: then_doE split: if_splits dest!: store_entry_length)
    next
      case False
      with assms lt nl have "r = (s, dM, dT)"
        by (auto simp: back_prop_layer_def Let_def)
      then show ?thesis by simp
    qed
  qed
qed

lemma back_prop_layers_grads:
  assumes "for_each (back_prop_layer ext f g a) ls q = Inr r"
  shows "fst r = (fst q)\<lparr>grads := grads (fst r)\<rparr>
     \<and> length (grads (fst r)) \<le> length (grads (fst q)) + length ls"
  using assms
proof (induction ls arbitrary: q)
  case Nil
  then show ?case by simp
next
  case (Cons l ls)
  from Cons.prems obtain q1 where step: "back_prop_layer ext f g a l q = Inr q1"
    and rest: "for_each (back_prop_layer ext f g a) ls q1 = Inr r"
    by (auto split: sum.splits)
  obtain s dM dT where q: "q = (s, dM, dT)" by (cases q)
  from back_prop_layer_grads [of ext f g a l s dM dT q1] step q
  obtain g1 where g1: "fst q1 = (fst q)\<lparr>grads := g1\<rparr>" "length g1 \<le> Suc (length (grads (fst q)))"
    by auto
  from Cons.IH [OF rest] obtain g2 where
    g2: "fst r = (fst q1)\<lparr>grads := g2\<rparr>" "length g2 \<le> length (grads (fst q1)) + length ls"
    by blast
  have "fst r = (fst q)\<lparr>grads := g2\<rparr>" using g1 g2 by simp
  moreover have "length g2 \<le> length (grads (fst q)) + length (l # ls)" using g1 g2 by simp
  ultimately show ?case by simp
qed

lemma back_prop_only_grads:
  assumes "back_prop ext s = Inr s'" and "layer_types s \<noteq> []"
  shows "s' = s\<lparr>grads := grads s'\<rparr>
     \<and> length (grads s') < length (grads s) + length (layer_types s)"
proof -
  let ?L = "length (layer_types s)"
  from assms(1) obtain f g a dA r where
    loop: "back_prop_loop ext f g a (s, dA, []) = Inr r" and s': "s' = fst r"
    unfolding back_prop_def Let_def by (elim then_doE) auto
  have one: "1 \<le> ?L" using assms(2) by (cases "layer_types s") simp_all
  then have "[1..<Suc ?L] = [1..<?L] @ [?L]" by simp
  then have ls: "rev (map int [1..<Suc ?L]) = int ?L # rev (map int [1..<?L])" by simp
  from loop obtain q1 where first: "back_prop_layer ext f g a (int ?L) (s, dA, []) = Inr q1"
    and rest: "for_each (back_prop_layer ext f g a) (rev (map int [1..<?L])) q1 = Inr r"
    unfolding back_prop_loop_def fst_conv ls by (auto split: sum.splits)
  from back_prop_layer_grads [OF first] obtain g1 where
    "fst q1 = s\<lparr>grads := g1\<rparr>" "g1 = grads s" by blast
  then have q1: "fst q1 = s" by simp
  from back_prop_layers_grads [OF rest] q1 obtain gs where
    "fst r = s\<lparr>grads := gs\<rparr>" "length gs \<le> length (grads s) + length (rev (map int [1..<?L]))"
    by auto
  then have "s' = s\<lparr>grads := gs\<rparr>" and "length gs < length (grads s) + ?L"
    using s' one by simp_all
  then show ?thesis by simp
qed

text \<open>
  C3, what the code does. Starting with no stored gradients, one complete forward pass
  followed by one complete backward pass leaves \<open>layer_types\<close> and \<open>layer_params\<close> as
  they were and stores fewer gradient entries than there are layers: the iteration for the
  topmost layer leaves the loop body at once, and every other iteration appends at most
  one entry. The gradient sequence therefore does not reach length \<open>L\<close>.
\<close>

theorem gradients_shorter_than_layers:
  assumes "grads s = []" and "layer_types s \<noteq> []"
    and "forward_prop ext s x = Inr s1" and "back_prop ext s1 = Inr s2"
  shows "layer_types s2 = layer_types s \<and> layer_params s2 = layer_params s
     \<and> length (grads s2) < length (layer_types s2)"
proof -
  from forward_prop_only_cache [OF assms(3)] obtain c p where
    s1: "s1 = s\<lparr>cache := c, finalPrediction := p\<rparr>" by blast
  then have "layer_types s1 \<noteq> []" using assms(2) by simp
  from back_prop_only_grads [OF assms(4) this] obtain gs where
    "s2 = s1\<lparr>grads := gs\<rparr>" "length gs < length (grads s1) + length (layer_types s1)"
    by blast
  then show ?thesis using s1 assms(1) by simp
qed

text \<open>
  C1, what the code does. After a forward pass on any minibatch \<open>x_batch\<close>, \<open>back_prop\<close>
  takes the matrix under the key \<^verbatim>\<open>"A"+std::to_string(L-1)\<close> of the last cache entry (not
  \<open>finalPrediction\<close>), subtracts the stored \<open>y_train\<close> from it and divides by the number
  of examples of the stored \<open>x_train\<close>. Neither the minibatch nor its size enters the seed.
\<close>

theorem seed_gradient_uses_stored_dataset:
  assumes "x_train s = VTensor3D X" and "forward_prop ext s x_batch = Inr s1"
    and "vec_at (cache s1) (int (length (layer_types s)) - 1) = Inr (CacheMLP d)"
  shows "back_prop ext s1 =
      then_do (reshape_last_timestep_T X) (\<lambda>a_in.
      then_do (then_do (linalg_subtract ext
                          (dict_get d (''A'' @ to_string (int (length (layer_types s)) - 1)) [])
                          (y_train s))
                 (\<lambda>diff. linalg_division_scalar ext diff (real (length X)))) (\<lambda>dA_matrix.
      then_do (back_prop_loop ext (reshape_last_timestep_M (x_train s)) reshape_last_timestep_T
                 a_in (s1, dA_matrix, [])) (\<lambda>r. Inr (fst r))))"
proof -
  from forward_prop_only_cache [OF assms(2)] obtain c p where
    s1: "s1 = s\<lparr>cache := c, finalPrediction := p\<rparr>" by blast
  have x: "x_train s1 = VTensor3D X" and y: "y_train s1 = y_train s"
    and l: "layer_types s1 = layer_types s"
    using s1 assms(1) by simp_all
  have seed: "seed_gradient ext s1 m =
      then_do (linalg_subtract ext
                 (dict_get d (''A'' @ to_string (int (length (layer_types s)) - 1)) []) (y_train s))
        (\<lambda>diff. linalg_division_scalar ext diff (real m))" for m
    unfolding seed_gradient_def Let_def l y assms(3) then_do.simps
    by (simp add: get_matrixDict_def)
  show ?thesis
    unfolding back_prop_def Let_def x seed
    by (simp add: get_Tensor3D_def assms(1))
qed

text \<open>
  The two cases in which a feed-forward layer gets the input that is meant for it: a
  \<^verbatim>\<open>Relu\<close> layer right after a recurrent layer is handed the last timestep of the
  recurrent hidden state, and a feed-forward layer after a feed-forward layer the previous
  output.
\<close>

lemma relu_after_recurrent_gets_last_timestep:
  assumes "vec_at (layer_types s) (i - 1) = Inr ''Relu''"
    and "vec_at (layer_types s) (i - 2) = Inr ''LSTM''" and "i \<noteq> 1"
  shows "forward_layer ext x a_initial i (s, loc) =
      then_do (reshape_last_timestep_T (new_hidden_state loc)) (\<lambda>a.
      then_do (vec_at (layer_params s) (i - 1)) (\<lambda>params.
      then_do (Dense ext a params activations_relu i True) (\<lambda>dense.
      then_do (store_entry (cache s) (length (layer_types s)) i (CacheMLP (snd dense))) (\<lambda>c.
        Inr (s\<lparr>cache := c\<rparr>,
             loc\<lparr>first_mlp_encountered := True, a_out := fst dense\<rparr>)))))"
proof (cases "reshape_last_timestep_T (new_hidden_state loc)")
  case (Inl e)
  then show ?thesis by (simp add: forward_layer_def assms)
next
  case (Inr a)
  then show ?thesis by (simp add: forward_layer_def assms)
qed

lemma feed_forward_after_feed_forward_gets_previous_output:
  assumes "vec_at (layer_types s) (i - 1) = Inr lt" and "lt = ''Relu'' \<or> lt = ''Linear''"
    and "vec_at (layer_types s) (i - 2) = Inr prev" and "prev \<noteq> ''LSTM''" and "i \<noteq> 1"
  shows "forward_layer ext x a_initial i (s, loc) =
      then_do (vec_at (layer_params s) (i - 1)) (\<lambda>params.
      then_do (Dense ext (a_out loc) params
                 (if lt = ''Relu'' then activations_relu else activations_linear) i False)
        (\<lambda>dense.
      then_do (store_entry (cache s) (length (layer_types s)) i (CacheMLP (snd dense))) (\<lambda>c.
        Inr (s\<lparr>cache := c\<rparr>,
             loc\<lparr>first_mlp_encountered := False, a_out := fst dense\<rparr>))))"
proof (cases "lt = ''Relu''")
  case True
  then show ?thesis using assms by (simp add: forward_layer_def)
next
  case False
  then have "lt = ''Linear''" using assms(2) by simp
  then show ?thesis using assms by (simp add: forward_layer_def)
qed

text \<open>
  C6, what the code does. In the architecture of a recurrent layer followed by a linear
  layer, on a first forward pass, the linear layer is handed the empty matrix that
  \<open>a_out\<close> was declared with, and the flag \<open>first_mlp_encountered\<close> is false: the hidden
  state \<open>fst c\<close> of the recurrent layer is not reshaped, because the guard of line 295
  tests \<^verbatim>\<open>layer_types[i-1]\<close>, which is \<^verbatim>\<open>"Linear"\<close> in that branch.
\<close>

theorem linear_after_recurrent_gets_empty_input:
  assumes "layer_types s = [''LSTM'', ''Linear'']" and "cache s = []"
    and "layer_params s = [p1, p2]" and "p1 ''Wy1'' = Some Wy" and "Wy \<noteq> []"
    and "generateZeros ext (int (length X)) (int (length (Wy ! 0))) = Inr a0"
    and "lstm_forward ext X a0 p1 1 = Inr c"
  shows "forward_prop ext s (VTensor3D X) =
      then_do (Dense ext [] p2 activations_linear 2 False) (\<lambda>dense.
        Inr (s\<lparr>cache := [CacheLSTM c, CacheMLP (snd dense)], finalPrediction := fst dense\<rparr>))"
proof -
  have wy: "vec_at (dict_get p1 ''Wy1'' []) 0 = Inr (Wy ! 0)"
    using assms(4,5) by (simp add: dict_get_def vec_at_def)
  have ls: "map int [1..<Suc (length (layer_types s))] = [1, 2]"
    by (simp add: assms(1) upt_rec)
  let ?loc0 = "\<lparr>a_out = [], first_mlp_encountered = False, new_x_state = [], new_hidden_state = []\<rparr>"
  let ?loc1 = "?loc0\<lparr>new_x_state := snd (snd (snd (snd c))), new_hidden_state := fst c\<rparr>"
  let ?s1 = "s\<lparr>cache := [CacheLSTM c]\<rparr>"
  have l1: "forward_layer ext (VTensor3D X) a0 1 (s, ?loc0) = Inr (?s1, ?loc1)"
    by (simp add: forward_layer_def vec_at_def assms get_Tensor3D_def store_entry_def)
  have l2: "forward_layer ext (VTensor3D X) a0 2 (?s1, ?loc1) =
      then_do (Dense ext [] p2 activations_linear 2 False) (\<lambda>dense.
        Inr (s\<lparr>cache := [CacheLSTM c, CacheMLP (snd dense)]\<rparr>, ?loc1\<lparr>a_out := fst dense\<rparr>))"
    by (simp add: forward_layer_def vec_at_def assms store_entry_def)
  have p0: "vec_at (layer_params s) 0 = Inr p1"
    by (simp add: assms(3) vec_at_def)
  have x3: "get_Tensor3D (VTensor3D X) = Inr X"
    by (simp add: get_Tensor3D_def)
  have loop: "for_each (forward_layer ext (VTensor3D X) a0) [1, 2] (s, ?loc0) =
      then_do (Dense ext [] p2 activations_linear 2 False) (\<lambda>dense.
        Inr (s\<lparr>cache := [CacheLSTM c, CacheMLP (snd dense)]\<rparr>, ?loc1\<lparr>a_out := fst dense\<rparr>))"
    unfolding for_each.simps l1 sum.case l2
    by (cases "Dense ext [] p2 activations_linear 2 False") simp_all
  show ?thesis
    unfolding forward_prop_def Let_def ls p0 then_do.simps wy x3 assms(6) loop
    by (cases "Dense ext [] p2 activations_linear 2 False") simp_all
qed

section \<open>The step counter and the keys of the update\<close>

lemma initialize_network_step:
  assumes "initialize_network ext s = Inr s'"
  shows "t s' = t s"
proof -
  have step: "t q' = t q" if "initialize_layer ext i q = Inr q'" for i q q'
    using that unfolding initialize_layer_def by (elim then_do_dropE) auto
  have "for_each (initialize_layer ext) (map int [1..<Suc (length (layer_types s))]) s = Inr s'"
    using assms by (simp add: initialize_network_def)
  then show ?thesis
    by (rule for_each_preserves [where P = "\<lambda>q. t q = t s", rotated 2]) (simp_all add: step)
qed

lemma init_Adam_step:
  assumes "init_Adam ext s = Inr s'"
  shows "t s' = t s"
proof -
  have step: "t q' = t q" if "init_Adam_layer ext i q = Inr q'" for i q q'
    using that unfolding init_Adam_layer_def by (elim then_do_dropE) auto
  have "for_each (init_Adam_layer ext) (map int [1..<Suc (length (layer_types s))])
          (s\<lparr>Adam_params := resize (Adam_params s) (length (layer_types s))\<rparr>) = Inr s'"
    using assms by (simp add: init_Adam_def)
  then show ?thesis
    by (rule for_each_preserves [where P = "\<lambda>q. t q = t s", rotated 2]) (simp_all add: step)
qed

text \<open>
  C2, what the code does. The step counter starts at \<open>0\<close> and only the last line of
  \<open>optimize\<close> changes it. So after the preparation calls, a forward and a backward pass,
  the first call of \<open>optimize\<close> runs its whole loop with \<open>t = 0\<close>: both bias-correction
  denominators \<open>1 - beta ^ t\<close> are \<open>0\<close>, and every corrected moment is a division by \<open>0\<close>.
\<close>

theorem first_optimize_divides_by_zero:
  assumes "prepare_model ext X Y b n lt ld lr = Inr s1"
    and "forward_prop ext s1 x_batch = Inr s2" and "back_prop ext s2 = Inr s3"
  shows "t s3 = 0
     \<and> bias_correction beta1 (t s3) = 0 \<and> bias_correction beta2 (t s3) = 0
     \<and> (\<forall>ls s'. for_each (optimize_layer ext) ls s3 = Inr s' \<longrightarrow> t s' = 0)
     \<and> corrected_step ext beta (t s3) moment key corrected
         = then_do (linalg_division_scalar ext (dict_get moment key []) 0)
             (\<lambda>r. Inr (corrected(key \<mapsto> r)))"
proof -
  from assms(1) obtain s0 where
    n: "initialize_network ext
          (init_layers lt ld (init_hidden_units n (init_data X Y b initial_state))) = Inr s0"
    and a: "init_Adam ext (init_learning_rate lr s0) = Inr s1"
    unfolding prepare_model_def by (elim then_doE)
  have "t s0 = 0"
    using initialize_network_step [OF n]
    by (simp add: init_layers_def init_hidden_units_def init_data_def initial_state_def)
  then have "t s1 = 0"
    using init_Adam_step [OF a] by (simp add: init_learning_rate_def)
  moreover obtain c p where "s2 = s1\<lparr>cache := c, finalPrediction := p\<rparr>"
    using forward_prop_only_cache [OF assms(2)] by blast
  ultimately have "t s2 = 0" by simp
  moreover obtain f g a dA r where "back_prop_loop ext f g a (s2, dA, []) = Inr r" "s3 = fst r"
    using assms(3) unfolding back_prop_def Let_def by (elim then_doE) auto
  then obtain gs where "s3 = s2\<lparr>grads := gs\<rparr>"
    using back_prop_layers_grads [of ext f g a _ "(s2, dA, [])" r]
    unfolding back_prop_loop_def by auto
  ultimately have z: "t s3 = 0" by simp
  have loop: "\<forall>ls s'. for_each (optimize_layer ext) ls s3 = Inr s' \<longrightarrow> t s' = 0"
    using optimize_loop_preserves z by simp
  show ?thesis
    unfolding z using loop z by (simp add: bias_correction_def corrected_step_def)
qed

lemma update_step_result:
  assumes "update_step ext lr vc sc suffix name params = Inr params'"
  shows "\<exists>r. params' = params(name @ suffix \<mapsto> r)"
  using assms unfolding update_step_def Let_def
  by (elim then_do_dropE) auto

lemma update_loop_result:
  assumes "for_each (update_step ext lr vc sc suffix) names params = Inr params'"
  shows "(\<forall>n \<in> set names. n @ suffix \<in> dom params')
     \<and> (\<forall>k. k \<notin> (\<lambda>n. n @ suffix) ` set names \<longrightarrow> params' k = params k)
     \<and> dom params \<subseteq> dom params'"
  using assms
proof (induction names arbitrary: params)
  case Nil
  then show ?case by simp
next
  case (Cons n names)
  from Cons.prems obtain p1 where step: "update_step ext lr vc sc suffix n params = Inr p1"
    and rest: "for_each (update_step ext lr vc sc suffix) names p1 = Inr params'"
    by (auto split: sum.splits)
  from update_step_result [OF step] obtain r where p1: "p1 = params(n @ suffix \<mapsto> r)" by blast
  from Cons.IH [OF rest] have ih: "\<forall>m \<in> set names. m @ suffix \<in> dom params'"
    "\<forall>k. k \<notin> (\<lambda>m. m @ suffix) ` set names \<longrightarrow> params' k = p1 k" "dom p1 \<subseteq> dom params'"
    by blast+
  have "n @ suffix \<in> dom p1" using p1 by simp
  then have a: "\<forall>m \<in> set (n # names). m @ suffix \<in> dom params'" using ih(1,3) by auto
  have b: "\<forall>k. k \<notin> (\<lambda>m. m @ suffix) ` set (n # names) \<longrightarrow> params' k = params k"
    using ih(2) p1 by auto
  have c: "dom params \<subseteq> dom params'" using ih(3) p1 by auto
  from a b c show ?case by blast
qed

lemma adam_update_params:
  assumes "adam_update ext names l v s st = Inr st'"
    and "vec_at (layer_params st) (l - 1) = Inr p"
  shows "\<exists>p'. layer_params st' = (layer_params st)[nat (l - 1) := p']
     \<and> (\<forall>n \<in> set names. n @ to_string (l + 1) \<in> dom p')
     \<and> (\<forall>k. k \<notin> (\<lambda>n. n @ to_string (l + 1)) ` set names \<longrightarrow> p' k = p k)
     \<and> dom p \<subseteq> dom p'"
proof -
  from assms obtain vc sc p' where
    run: "for_each (update_step ext (learning_rate st) vc sc (to_string (l + 1))) names p = Inr p'"
    and st': "layer_params st' = (layer_params st)[nat (l - 1) := p']"
    unfolding adam_update_def Let_def
    apply -
    apply (erule then_do_dropE, erule then_do_dropE, erule then_do_dropE,
           erule then_do_dropE, erule then_do_dropE, erule then_do_dropE)
    apply (erule then_doE, erule then_doE)
    apply auto
    done
  from update_loop_result [OF run] st' show ?thesis by blast
qed

text \<open>
  C4, what the code does. An iteration of \<open>optimize\<close> for layer \<open>l\<close> that returns writes,
  into the dictionary of layer \<open>l\<close>, the keys with the suffix \<open>l + 1\<close>: each of them is in
  the dictionary afterwards, whether it was before or not, and every other entry, among
  them the parameters under the suffix \<open>l\<close> that \<open>init_Adam\<close> reads, is left as it was.
\<close>

theorem optimize_layer_writes_next_layer_keys:
  assumes "optimize_layer ext l st = Inr st'"
    and "vec_at (layer_types st) (l - 1) = Inr lt"
    and "lt = ''LSTM'' \<and> names = lstm_names \<or> (lt = ''Relu'' \<or> lt = ''Linear'') \<and> names = mlp_names"
    and "vec_at (layer_params st) (l - 1) = Inr p"
  shows "\<exists>p'. layer_params st' = (layer_params st)[nat (l - 1) := p']
     \<and> (\<forall>n \<in> set names. n @ to_string (l + 1) \<in> dom p')
     \<and> (\<forall>k. k \<notin> (\<lambda>n. n @ to_string (l + 1)) ` set names \<longrightarrow> p' k = p k)
     \<and> dom p \<subseteq> dom p'"
proof -
  from assms(1,2,3) obtain v s where "adam_update ext names l v s st = Inr st'"
    unfolding optimize_layer_def
    by (elim then_doE) (auto split: if_splits)
  from adam_update_params [OF this assms(4)] show ?thesis .
qed


text \<open>The definitions unfolded to run the model at a concrete state.\<close>

lemmas run_defs = forward_prop_def forward_layer_def back_prop_def back_prop_loop_def
  back_prop_layer_def seed_gradient_def store_entry_def vec_at_def vec_set_def dict_get_def
  get_Tensor3D_def get_Matrix_def get_matrixDict_def reshape_last_timestep_T_def
  reshape_last_timestep_M_def initial_state_def Let_def upt_rec

lemmas init_defs = initialize_network_def initialize_layer_def init_layers_def init_data_def
  init_hidden_units_def init_learning_rate_def init_Adam_def init_Adam_layer_def
  init_moments_def zeros_like_def resize_def lstm_names_def mlp_names_def prepare_model_def

lemmas optimize_defs = optimize_layer_def adam_update_def momentum_step_def rms_step_def
  corrected_step_def update_step_def dict_touch_def get_gradientDict_def

section \<open>Runs on concrete inputs\<close>

text \<open>
  Two recurrent layers and a linear one, one example: after the preparation calls the two
  passes complete, the cache holds three entries, and the gradients fewer than three.
\<close>

theorem gradients_shorter_than_layers_witness:
  "\<exists>s s1 s2.
     prepare_model stub_extern (VTensor3D [[[1]]]) [[1]] 1 1 [''LSTM'', ''LSTM'', ''Linear''] [1, 1, 1]
       (3 / 10000) = Inr s
     \<and> forward_prop stub_extern s (VTensor3D [[[1]]]) = Inr s1
     \<and> back_prop stub_extern s1 = Inr s2
     \<and> length (layer_types s2) = 3 \<and> length (layer_params s2) = 3 \<and> length (cache s2) = 3
     \<and> length (grads s2) < length (layer_types s2)"
proof -
  have "\<exists>s. prepare_model stub_extern (VTensor3D [[[1]]]) [[1]] 1 1 [''LSTM'', ''LSTM'', ''Linear'']
              [1, 1, 1] (3 / 10000) = Inr s
          \<and> grads s = [] \<and> layer_types s = [''LSTM'', ''LSTM'', ''Linear'']
          \<and> length (layer_params s) = 3
          \<and> (\<exists>s1. forward_prop stub_extern s (VTensor3D [[[1]]]) = Inr s1
          \<and> (\<exists>s2. back_prop stub_extern s1 = Inr s2 \<and> length (cache s2) = 3))"
    by (simp add: init_defs run_defs)
  then obtain s s1 s2 where
    i: "prepare_model stub_extern (VTensor3D [[[1]]]) [[1]] 1 1 [''LSTM'', ''LSTM'', ''Linear'']
          [1, 1, 1] (3 / 10000) = Inr s"
    and g: "grads s = []" and l: "layer_types s = [''LSTM'', ''LSTM'', ''Linear'']"
    and p: "length (layer_params s) = 3"
    and f: "forward_prop stub_extern s (VTensor3D [[[1]]]) = Inr s1"
    and b: "back_prop stub_extern s1 = Inr s2" and c: "length (cache s2) = 3"
    by blast
  have ne: "layer_types s \<noteq> []" using l by simp
  from gradients_shorter_than_layers [OF g ne f b]
  have "layer_types s2 = layer_types s" "layer_params s2 = layer_params s"
    "length (grads s2) < length (layer_types s2)"
    by blast+
  then show ?thesis using i f b c l p by (intro exI [of _ s] exI [of _ s1] exI [of _ s2]) simp
qed

text \<open>
  A stored dataset of four examples and a minibatch of two: the cached activation has two
  rows, the subtracted target four, and the divisor is \<open>4\<close>.
\<close>

theorem seed_gradient_uses_stored_dataset_witness:
  "\<exists>s s1.
     prepare_model stub_extern (VTensor3D [[[1]], [[2]], [[3]], [[4]]]) [[1], [2], [3], [4]] 2 1
       [''LSTM'', ''Relu''] [1, 1] (3 / 10000) = Inr s
     \<and> forward_prop stub_extern s (VTensor3D [[[1]], [[2]]]) = Inr s1
     \<and> vec_at (cache s1) 1 = Inr (CacheMLP [''A1'' \<mapsto> [[1], [2]]])
     \<and> back_prop stub_extern s1 =
         then_do (reshape_last_timestep_T [[[1]], [[2]], [[3]], [[4]]]) (\<lambda>a_in.
         then_do (then_do (linalg_subtract stub_extern [[1], [2]] [[1], [2], [3], [4]])
                    (\<lambda>diff. linalg_division_scalar stub_extern diff 4)) (\<lambda>dA_matrix.
         then_do (back_prop_loop stub_extern
                    (reshape_last_timestep_M (VTensor3D [[[1]], [[2]], [[3]], [[4]]]))
                    reshape_last_timestep_T a_in (s1, dA_matrix, [])) (\<lambda>r. Inr (fst r))))"
proof -
  have "\<exists>s. prepare_model stub_extern (VTensor3D [[[1]], [[2]], [[3]], [[4]]]) [[1], [2], [3], [4]] 2 1
              [''LSTM'', ''Relu''] [1, 1] (3 / 10000) = Inr s
          \<and> x_train s = VTensor3D [[[1]], [[2]], [[3]], [[4]]]
          \<and> y_train s = [[1], [2], [3], [4]] \<and> layer_types s = [''LSTM'', ''Relu'']
          \<and> (\<exists>s1. forward_prop stub_extern s (VTensor3D [[[1]], [[2]]]) = Inr s1
                \<and> vec_at (cache s1) 1 = Inr (CacheMLP [''A1'' \<mapsto> [[1], [2]]]))"
    by (simp add: init_defs run_defs)
  then obtain s s1 where
    i: "prepare_model stub_extern (VTensor3D [[[1]], [[2]], [[3]], [[4]]]) [[1], [2], [3], [4]] 2 1
          [''LSTM'', ''Relu''] [1, 1] (3 / 10000) = Inr s"
    and x: "x_train s = VTensor3D [[[1]], [[2]], [[3]], [[4]]]"
    and y: "y_train s = [[1], [2], [3], [4]]" and l: "layer_types s = [''LSTM'', ''Relu'']"
    and f: "forward_prop stub_extern s (VTensor3D [[[1]], [[2]]]) = Inr s1"
    and c: "vec_at (cache s1) 1 = Inr (CacheMLP [''A1'' \<mapsto> [[1], [2]]])"
    by blast
  have c': "vec_at (cache s1) (int (length (layer_types s)) - 1)
      = Inr (CacheMLP [''A1'' \<mapsto> [[1], [2]]])"
    using c l by simp
  from seed_gradient_uses_stored_dataset [OF x f c'] i f c
  show ?thesis
    by (intro exI [of _ s] exI [of _ s1]) (simp add: dict_get_def l x y)
qed

text \<open>
  One example of two timesteps: the last timestep is \<open>[3, 4]\<close>, and the linear layer
  receives the empty matrix, which the stand-in records in the cache and returns as the
  prediction.
\<close>

theorem linear_after_recurrent_gets_empty_input_witness:
  "\<exists>s s1.
     prepare_model stub_extern (VTensor3D [[[1, 2], [3, 4]]]) [[1]] 1 1 [''LSTM'', ''Linear''] [1, 1]
       (3 / 10000) = Inr s
     \<and> forward_prop stub_extern s (VTensor3D [[[1, 2], [3, 4]]]) = Inr s1
     \<and> cache s1 = [CacheLSTM ([[[1, 2], [3, 4]]], [[[1, 2], [3, 4]]], [[[1, 2], [3, 4]]],
                               [], [[[1, 2], [3, 4]]]),
                    CacheMLP [''A1'' \<mapsto> []]]
     \<and> finalPrediction s1 = []
     \<and> reshape_last_timestep_T [[[1, 2], [3, 4]]] = Inr [[3, 4]]"
proof -
  let ?p1 = "map_of (map (\<lambda>n. (n @ to_string 1, [[0 :: real]])) lstm_names)"
  let ?p2 = "map_of (map (\<lambda>n. (n @ to_string (1 + 1), [[0 :: real]])) mlp_names)"
  let ?c = "([[[1, 2], [3, 4]]], [[[1, 2], [3, 4]]], [[[1, 2], [3, 4]]], [], [[[1, 2], [3, 4]]])
              :: LSTMCache"
  have "\<exists>s. prepare_model stub_extern (VTensor3D [[[1, 2], [3, 4]]]) [[1]] 1 1 [''LSTM'', ''Linear'']
              [1, 1] (3 / 10000) = Inr s
          \<and> layer_types s = [''LSTM'', ''Linear''] \<and> cache s = []
          \<and> layer_params s = [?p1, ?p2]"
    by (simp add: init_defs run_defs)
  then obtain s where
    i: "prepare_model stub_extern (VTensor3D [[[1, 2], [3, 4]]]) [[1]] 1 1 [''LSTM'', ''Linear'']
          [1, 1] (3 / 10000) = Inr s"
    and l: "layer_types s = [''LSTM'', ''Linear'']" and c: "cache s = []"
    and p: "layer_params s = [?p1, ?p2]"
    by blast
  have wy: "?p1 ''Wy1'' = Some [[0]]" by (simp add: lstm_names_def)
  have f: "forward_prop stub_extern s (VTensor3D [[[1, 2], [3, 4]]]) =
      then_do (Dense stub_extern [] ?p2 activations_linear 2 False) (\<lambda>dense.
        Inr (s\<lparr>cache := [CacheLSTM ?c, CacheMLP (snd dense)], finalPrediction := fst dense\<rparr>))"
    by (rule linear_after_recurrent_gets_empty_input [OF l c p wy, where ?a0.0 = "[[0]]"])
      simp_all
  have r: "reshape_last_timestep_T [[[1, 2], [3, 4]]] = Inr [[3, 4]]"
    by (simp add: reshape_last_timestep_T_def vec_at_def upt_rec)
  show ?thesis
    using i r
    by (intro exI [of _ s]
        exI [of _ "s\<lparr>cache := [CacheLSTM ?c, CacheMLP [''A1'' \<mapsto> []]], finalPrediction := []\<rparr>"])
      (simp add: f)
qed

text \<open>The preparation calls and the two passes on a network of three layers.\<close>

theorem first_optimize_divides_by_zero_witness:
  "\<exists>s1 s2 s3.
     prepare_model stub_extern (VTensor3D [[[1]]]) [[1]] 1 1 [''LSTM'', ''LSTM'', ''Linear''] [1, 1, 1]
       (3 / 10000) = Inr s1
     \<and> forward_prop stub_extern s1 (VTensor3D [[[1]]]) = Inr s2
     \<and> back_prop stub_extern s2 = Inr s3
     \<and> t s3 = 0 \<and> bias_correction beta1 (t s3) = 0 \<and> bias_correction beta2 (t s3) = 0"
proof -
  have "\<exists>s1. prepare_model stub_extern (VTensor3D [[[1]]]) [[1]] 1 1 [''LSTM'', ''LSTM'', ''Linear'']
               [1, 1, 1] (3 / 10000) = Inr s1
     \<and> (\<exists>s2. forward_prop stub_extern s1 (VTensor3D [[[1]]]) = Inr s2
     \<and> (\<exists>s3. back_prop stub_extern s2 = Inr s3))"
    by (simp add: init_defs run_defs)
  then obtain s1 s2 s3 where
    a: "prepare_model stub_extern (VTensor3D [[[1]]]) [[1]] 1 1 [''LSTM'', ''LSTM'', ''Linear'']
          [1, 1, 1] (3 / 10000) = Inr s1"
    and c: "forward_prop stub_extern s1 (VTensor3D [[[1]]]) = Inr s2"
    and d: "back_prop stub_extern s2 = Inr s3"
    by blast
  from first_optimize_divides_by_zero [OF a c d] a c d show ?thesis by blast
qed

text \<open>
  On the same network, the iteration of \<open>optimize\<close> for \<open>l = 1\<close>: the first layer holds
  \<open>Wf1\<close> and not \<open>Wf2\<close> before, and both afterwards, \<open>Wf1\<close> unchanged. The whole call
  of \<open>optimize\<close> ends in an out-of-bounds read.
\<close>

theorem optimize_layer_writes_next_layer_keys_witness:
  "\<exists>s1 s2 s3 s4.
     prepare_model stub_extern (VTensor3D [[[1]]]) [[1]] 1 1 [''LSTM'', ''LSTM'', ''Linear''] [1, 1, 1]
       (3 / 10000) = Inr s1
     \<and> forward_prop stub_extern s1 (VTensor3D [[[1]]]) = Inr s2
     \<and> back_prop stub_extern s2 = Inr s3
     \<and> optimize_layer stub_extern 1 s3 = Inr s4
     \<and> (layer_params s3 ! 0) ''Wf1'' = Some [[0]] \<and> ''Wf2'' \<notin> dom (layer_params s3 ! 0)
     \<and> (layer_params s4 ! 0) ''Wf1'' = Some [[0]] \<and> ''Wf2'' \<in> dom (layer_params s4 ! 0)
     \<and> optimize stub_extern s3 = Inl out_of_bounds"
proof -
  have "\<exists>s1. prepare_model stub_extern (VTensor3D [[[1]]]) [[1]] 1 1 [''LSTM'', ''LSTM'', ''Linear'']
               [1, 1, 1] (3 / 10000) = Inr s1
     \<and> (\<exists>s2. forward_prop stub_extern s1 (VTensor3D [[[1]]]) = Inr s2
     \<and> (\<exists>s3. back_prop stub_extern s2 = Inr s3
         \<and> (\<exists>p. vec_at (layer_params s3) (1 - 1) = Inr p \<and> p ''Wf1'' = Some [[0]]
                  \<and> ''Wf2'' \<notin> dom p)
         \<and> vec_at (layer_types s3) (1 - 1) = Inr ''LSTM''
         \<and> length (layer_params s3) = 3
         \<and> (\<exists>s4. optimize_layer stub_extern 1 s3 = Inr s4)
         \<and> optimize stub_extern s3 = Inl out_of_bounds))"
    by (simp add: init_defs run_defs optimize_defs optimize_def)
  then obtain s1 s2 s3 s4 p where
    a: "prepare_model stub_extern (VTensor3D [[[1]]]) [[1]] 1 1 [''LSTM'', ''LSTM'', ''Linear'']
          [1, 1, 1] (3 / 10000) = Inr s1"
    and c: "forward_prop stub_extern s1 (VTensor3D [[[1]]]) = Inr s2"
    and d: "back_prop stub_extern s2 = Inr s3"
    and p: "vec_at (layer_params s3) (1 - 1) = Inr p" "p ''Wf1'' = Some [[0]]" "''Wf2'' \<notin> dom p"
    and lt: "vec_at (layer_types s3) (1 - 1) = Inr ''LSTM''"
    and len: "length (layer_params s3) = 3"
    and e: "optimize_layer stub_extern 1 s3 = Inr s4"
    and o: "optimize stub_extern s3 = Inl out_of_bounds"
    by blast
  from optimize_layer_writes_next_layer_keys [OF e lt _ p(1), of lstm_names]
  obtain p' where lp: "layer_params s4 = (layer_params s3)[nat (1 - 1) := p']"
    and new: "\<forall>n \<in> set lstm_names. n @ to_string (1 + 1) \<in> dom p'"
    and old: "\<forall>k. k \<notin> (\<lambda>n. n @ to_string (1 + 1)) ` set lstm_names \<longrightarrow> p' k = p k"
    by auto
  have p0: "layer_params s3 ! 0 = p" using p(1) len by (simp add: vec_at_def)
  have p0': "layer_params s4 ! 0 = p'" using lp len by simp
  have "''Wf2'' \<in> dom p'" using new by (simp add: lstm_names_def)
  moreover have "p' ''Wf1'' = Some [[0]]" using old p(2) by (simp add: lstm_names_def)
  ultimately show ?thesis using a c d e o p(2,3) p0 p0' by blast
qed

text \<open>
  Two runs of the optimizer after the preparation calls. With two recurrent layers and a
  linear one, after one forward and two backward passes, the iterations \<open>1\<close> and \<open>2\<close> return
  and the iteration \<open>3\<close> reads \<open>Adam_params[3]\<close> out of bounds. With the driver's architecture,
  after one forward and one backward pass, the iterations \<open>1, \<dots>, 4\<close> fail with a bad variant
  access, and the call ends with that error.
\<close>

theorem optimize_reads_Adam_params_out_of_bounds_witness:
  "(\<exists>s1 s2 s3 s4 s5.
     prepare_model stub_extern (VTensor3D [[[1]]]) [[1]] 1 1 [''LSTM'', ''LSTM'', ''Linear'']
       [1, 1, 1] (3 / 10000) = Inr s1
     \<and> forward_prop stub_extern s1 (VTensor3D [[[1]]]) = Inr s2
     \<and> back_prop stub_extern s2 = Inr s3
     \<and> back_prop stub_extern s3 = Inr s4
     \<and> length (layer_types s4) = 3
     \<and> length (Adam_params s4) = length (layer_types s4)
     \<and> for_each (optimize_layer stub_extern) (map int [1..<length (layer_types s4)]) s4 = Inr s5
     \<and> optimize_layer stub_extern (int (length (layer_types s4))) s5 = Inl out_of_bounds
     \<and> optimize stub_extern s4 = Inl out_of_bounds)
   \<and> (\<exists>s1 s2 s3.
     prepare_model stub_extern (VTensor3D [[[1]]]) [[1]] 1 1
       [''LSTM'', ''LSTM'', ''Relu'', ''Relu'', ''Linear''] [1, 1, 1, 1, 1] (3 / 10000) = Inr s1
     \<and> forward_prop stub_extern s1 (VTensor3D [[[1]]]) = Inr s2
     \<and> back_prop stub_extern s2 = Inr s3
     \<and> length (layer_types s3) = 5
     \<and> length (Adam_params s3) = length (layer_types s3)
     \<and> for_each (optimize_layer stub_extern) (map int [1..<length (layer_types s3)]) s3
         = Inl bad_variant_access
     \<and> optimize stub_extern s3 = Inl bad_variant_access)"
proof (rule conjI)
  have "\<exists>s1. prepare_model stub_extern (VTensor3D [[[1]]]) [[1]] 1 1
               [''LSTM'', ''LSTM'', ''Linear''] [1, 1, 1] (3 / 10000) = Inr s1
     \<and> (\<exists>s2. forward_prop stub_extern s1 (VTensor3D [[[1]]]) = Inr s2
     \<and> (\<exists>s3. back_prop stub_extern s2 = Inr s3
     \<and> (\<exists>s4. back_prop stub_extern s3 = Inr s4
         \<and> Adam_params s4 = Adam_params s1 \<and> layer_types s4 = layer_types s1
         \<and> layer_types s4 = [''LSTM'', ''LSTM'', ''Linear'']
         \<and> (\<exists>s5. for_each (optimize_layer stub_extern) [1, 2] s4 = Inr s5))))"
    by (simp add: init_defs run_defs optimize_defs)
  then obtain s1 s2 s3 s4 s5 where
    a: "prepare_model stub_extern (VTensor3D [[[1]]]) [[1]] 1 1
          [''LSTM'', ''LSTM'', ''Linear''] [1, 1, 1] (3 / 10000) = Inr s1"
    and f: "forward_prop stub_extern s1 (VTensor3D [[[1]]]) = Inr s2"
    and b1: "back_prop stub_extern s2 = Inr s3"
    and b2: "back_prop stub_extern s3 = Inr s4"
    and ap: "Adam_params s4 = Adam_params s1" and lt: "layer_types s4 = layer_types s1"
    and l: "layer_types s4 = [''LSTM'', ''LSTM'', ''Linear'']"
    and o: "for_each (optimize_layer stub_extern) [1, 2] s4 = Inr s5"
    by blast
  from a obtain s0 where i: "init_Adam stub_extern s0 = Inr s1"
    unfolding prepare_model_def by (elim then_doE)
  have ne: "layer_types s4 \<noteq> []" using l by simp
  have ls: "map int [1..<length (layer_types s4)] = [1, 2]"
    by (simp add: l upt_rec)
  from optimize_reads_Adam_params_out_of_bounds [OF i ap lt ne, of stub_extern]
  have len: "length (Adam_params s4) = length (layer_types s4)"
    and run: "\<forall>s'. for_each (optimize_layer stub_extern)
                   (map int [1..<length (layer_types s4)]) s4 = Inr s'
               \<longrightarrow> optimize_layer stub_extern (int (length (layer_types s4))) s' = Inl out_of_bounds
                 \<and> optimize stub_extern s4 = Inl out_of_bounds"
    by blast+
  have o': "for_each (optimize_layer stub_extern) (map int [1..<length (layer_types s4)]) s4
      = Inr s5"
    unfolding ls by (rule o)
  from run o' have "optimize_layer stub_extern (int (length (layer_types s4))) s5
      = Inl out_of_bounds" "optimize stub_extern s4 = Inl out_of_bounds"
    by blast+
  moreover have "length (layer_types s4) = 3" using l by simp
  ultimately show "\<exists>s1 s2 s3 s4 s5.
     prepare_model stub_extern (VTensor3D [[[1]]]) [[1]] 1 1 [''LSTM'', ''LSTM'', ''Linear'']
       [1, 1, 1] (3 / 10000) = Inr s1
     \<and> forward_prop stub_extern s1 (VTensor3D [[[1]]]) = Inr s2
     \<and> back_prop stub_extern s2 = Inr s3
     \<and> back_prop stub_extern s3 = Inr s4
     \<and> length (layer_types s4) = 3
     \<and> length (Adam_params s4) = length (layer_types s4)
     \<and> for_each (optimize_layer stub_extern) (map int [1..<length (layer_types s4)]) s4 = Inr s5
     \<and> optimize_layer stub_extern (int (length (layer_types s4))) s5 = Inl out_of_bounds
     \<and> optimize stub_extern s4 = Inl out_of_bounds"
    using a f b1 b2 len o' by blast
next
  have "\<exists>s1. prepare_model stub_extern (VTensor3D [[[1]]]) [[1]] 1 1
               [''LSTM'', ''LSTM'', ''Relu'', ''Relu'', ''Linear''] [1, 1, 1, 1, 1] (3 / 10000)
             = Inr s1
     \<and> (\<exists>s2. forward_prop stub_extern s1 (VTensor3D [[[1]]]) = Inr s2
     \<and> (\<exists>s3. back_prop stub_extern s2 = Inr s3
         \<and> Adam_params s3 = Adam_params s1 \<and> layer_types s3 = layer_types s1
         \<and> layer_types s3 = [''LSTM'', ''LSTM'', ''Relu'', ''Relu'', ''Linear'']
         \<and> for_each (optimize_layer stub_extern) [1, 2, 3, 4] s3 = Inl bad_variant_access))"
    by (simp add: init_defs run_defs optimize_defs)
  then obtain s1 s2 s3 where
    a: "prepare_model stub_extern (VTensor3D [[[1]]]) [[1]] 1 1
          [''LSTM'', ''LSTM'', ''Relu'', ''Relu'', ''Linear''] [1, 1, 1, 1, 1] (3 / 10000) = Inr s1"
    and f: "forward_prop stub_extern s1 (VTensor3D [[[1]]]) = Inr s2"
    and b: "back_prop stub_extern s2 = Inr s3"
    and ap: "Adam_params s3 = Adam_params s1" and lt: "layer_types s3 = layer_types s1"
    and l: "layer_types s3 = [''LSTM'', ''LSTM'', ''Relu'', ''Relu'', ''Linear'']"
    and o: "for_each (optimize_layer stub_extern) [1, 2, 3, 4] s3 = Inl bad_variant_access"
    by blast
  from a obtain s0 where i: "init_Adam stub_extern s0 = Inr s1"
    unfolding prepare_model_def by (elim then_doE)
  have ne: "layer_types s3 \<noteq> []" using l by simp
  have ls: "map int [1..<length (layer_types s3)] = [1, 2, 3, 4]"
    by (simp add: l upt_rec)
  from optimize_reads_Adam_params_out_of_bounds [OF i ap lt ne, of stub_extern]
  have len: "length (Adam_params s3) = length (layer_types s3)"
    and run: "\<forall>e. for_each (optimize_layer stub_extern)
                   (map int [1..<length (layer_types s3)]) s3 = Inl e
               \<longrightarrow> optimize stub_extern s3 = Inl e"
    by blast+
  have o': "for_each (optimize_layer stub_extern) (map int [1..<length (layer_types s3)]) s3
      = Inl bad_variant_access"
    unfolding ls by (rule o)
  from run o' have "optimize stub_extern s3 = Inl bad_variant_access" by blast
  moreover have "length (layer_types s3) = 5" using l by simp
  ultimately show "\<exists>s1 s2 s3.
     prepare_model stub_extern (VTensor3D [[[1]]]) [[1]] 1 1
       [''LSTM'', ''LSTM'', ''Relu'', ''Relu'', ''Linear''] [1, 1, 1, 1, 1] (3 / 10000) = Inr s1
     \<and> forward_prop stub_extern s1 (VTensor3D [[[1]]]) = Inr s2
     \<and> back_prop stub_extern s2 = Inr s3
     \<and> length (layer_types s3) = 5
     \<and> length (Adam_params s3) = length (layer_types s3)
     \<and> for_each (optimize_layer stub_extern) (map int [1..<length (layer_types s3)]) s3
         = Inl bad_variant_access
     \<and> optimize stub_extern s3 = Inl bad_variant_access"
    using a f b len o' by blast
qed

text \<open>
  C10 as stated, every call of \<open>optimize\<close> reading \<open>Adam_params[l]\<close> for every \<open>l\<close> from \<open>1\<close> to
  \<open>L\<close>, fails on the driver's own architecture. After the preparation calls, one forward and
  one backward pass, \<open>Adam_params\<close> holds five entries for five layers, the first entry of
  the gradients is not a gradient dictionary, and the iteration \<open>l = 1\<close> ends in a bad variant
  access: the call of \<open>optimize\<close> ends with that error, before any of the iterations
  \<open>2, \<dots>, 5\<close>, and \<open>Adam_params[5]\<close> is not read.
\<close>

theorem optimize_driver_counterexample:
  "then_do (prepare_model stub_extern (VTensor3D [[[1]]]) [[1]] 1 1
       [''LSTM'', ''LSTM'', ''Relu'', ''Relu'', ''Linear''] [1, 1, 1, 1, 1] (3 / 10000))
     (\<lambda>s1. then_do (forward_prop stub_extern s1 (VTensor3D [[[1]]]))
     (\<lambda>s2. then_do (back_prop stub_extern s2)
     (\<lambda>s3. Inr (length (layer_types s3), length (Adam_params s3),
          optimize_layer stub_extern 1 s3, optimize stub_extern s3))))
   = Inr (5, 5, Inl bad_variant_access, Inl bad_variant_access)"
  by (simp add: init_defs run_defs optimize_defs optimize_def upt_rec)

end
